theory Spec2Isabelle
  imports Main "HOL-Library.Multiset"
begin

section \<open>Documents and collections\<close>

text \<open>
  The server (\<^verbatim>\<open>server.js\<close>) keeps four Mongoose collections: \<^verbatim>\<open>User\<close>, \<^verbatim>\<open>Blog\<close>,
  \<^verbatim>\<open>Comment\<close> and \<^verbatim>\<open>Notification\<close>. A collection is the list of its documents in
  natural (insertion) order, a document is a record, an ObjectId is a natural number. A field
  that may be absent from a document or from a request is an \<open>option\<close>: \<open>None\<close> stands for
  every falsy reading of the field (undefined, null), \<open>Some i\<close> for an id, which is truthy.

  A JavaScript string is the list of its UTF-16 code units, which is what \<^verbatim>\<open>length\<close> counts
  and what a regular expression without the \<^verbatim>\<open>u\<close> flag reads; \<open>ascii\<close> writes such a string
  from its ASCII text. The messages of the responses are constants of the source and stay
  texts.

  The schema files (\<^verbatim>\<open>Schema/*.js\<close>) are not part of the sources at hand.
\<close>

type_synonym oid = nat

type_synonym js_string = "nat list"

definition ascii :: "string \<Rightarrow> js_string" where
  "ascii t = map of_char t"

text \<open>Modelled from the spec: the Comment schema (\<^verbatim>\<open>Schema/Comment.js\<close>), section 3, with
  the fields \<^verbatim>\<open>server.js\<close> reads and writes. \<open>c_id\<close> is \<^verbatim>\<open>_id\<close>, \<open>c_comment\<close> is \<^verbatim>\<open>comment\<close>.\<close>

record comment_doc =
  c_id :: oid
  c_blog_id :: oid
  c_blog_author :: oid
  c_comment :: js_string
  commented_by :: oid
  parent :: "oid option"
  isReply :: bool
  children :: "oid list"
  commentedAt :: nat

text \<open>Modelled from the spec: the Notification schema (\<^verbatim>\<open>Schema/Notification.js\<close>),
  section 3. \<open>n_type\<close> is \<^verbatim>\<open>type\<close>, \<open>n_blog\<close> is \<^verbatim>\<open>blog\<close>, \<open>n_user\<close> is \<^verbatim>\<open>user\<close>,
  \<open>n_comment\<close> is \<^verbatim>\<open>comment\<close>, \<open>n_reply\<close> is \<^verbatim>\<open>reply\<close>.\<close>

datatype notification_type = Like | CommentT | Reply

record notification_doc =
  n_id :: oid
  n_type :: notification_type
  n_blog :: oid
  notification_for :: oid
  n_user :: oid
  n_comment :: "oid option"
  replied_on_comment :: "oid option"
  n_reply :: "oid option"
  seen :: bool
  createdAt :: nat

text \<open>Modelled from the spec: the Blog schema (\<^verbatim>\<open>Schema/Blog.js\<close>), section 3. \<open>b_id\<close> is
  \<^verbatim>\<open>_id\<close>, \<open>blog_id\<close> the slug; \<open>content\<close> holds \<^verbatim>\<open>content.blocks\<close>, a block being
  its text.\<close>

record activity_doc =
  total_likes :: int
  total_reads :: int
  total_comments :: int
  total_parent_comments :: int

record blog_doc =
  b_id :: oid
  blog_id :: js_string
  title :: js_string
  banner :: js_string
  desc :: js_string
  content :: "js_string list"
  tags :: "js_string list"
  author :: oid
  activity :: activity_doc
  comments :: "oid list"
  draft :: bool
  publishedAt :: nat

text \<open>Modelled from the spec: the User schema (\<^verbatim>\<open>Schema/User.js\<close>), section 3, without
  \<^verbatim>\<open>personal_info\<close>, which no operation below touches. \<open>u_id\<close> is \<^verbatim>\<open>_id\<close>.\<close>

record account_info_doc =
  total_posts :: int
  u_total_reads :: int

record user_doc =
  u_id :: oid
  account_info :: account_info_doc
  blogs :: "oid list"
  admin :: bool

record store =
  Users :: "user_doc list"
  Blogs :: "blog_doc list"
  Comments :: "comment_doc list"
  Notifications :: "notification_doc list"

section \<open>The Mongoose operations the server uses\<close>

text \<open>
  \<^verbatim>\<open>Model.findOne(filter)\<close> is \<^const>\<open>find\<close>: the first document that matches, or \<open>None\<close>
  (null). \<^verbatim>\<open>findOneAndUpdate\<close> changes the first match and nothing when there is none (the
  server never asks for an upsert); \<^verbatim>\<open>findOneAndDelete\<close> removes the first match;
  \<^verbatim>\<open>deleteMany\<close> removes every match; \<^verbatim>\<open>save\<close> appends the new document.
\<close>

fun findOneAndUpdate :: "('a \<Rightarrow> bool) \<Rightarrow> ('a \<Rightarrow> 'a) \<Rightarrow> 'a list \<Rightarrow> 'a list" where
  "findOneAndUpdate P f [] = []"
| "findOneAndUpdate P f (x # xs) =
     (if P x then f x # xs else x # findOneAndUpdate P f xs)"

fun findOneAndDelete :: "('a \<Rightarrow> bool) \<Rightarrow> 'a list \<Rightarrow> 'a list" where
  "findOneAndDelete P [] = []"
| "findOneAndDelete P (x # xs) = (if P x then xs else x # findOneAndDelete P xs)"

definition deleteMany :: "('a \<Rightarrow> bool) \<Rightarrow> 'a list \<Rightarrow> 'a list" where
  "deleteMany P xs = filter (\<lambda>x. \<not> P x) xs"

definition save :: "'a \<Rightarrow> 'a list \<Rightarrow> 'a list" where
  "save x xs = xs @ [x]"

text \<open>
  An update document is a list of operators on field paths. Mongoose casts it before it
  reaches the database: a top-level key that is not an operator (\<^verbatim>\<open>{ reply: id }\<close>, and also
  a plain key written beside \<^verbatim>\<open>$inc\<close> and \<^verbatim>\<open>$pull\<close>) becomes a \<^verbatim>\<open>$set\<close> of that path, and a
  path the schema does not declare is dropped (strict mode). \<open>SetNum\<close> and \<open>SetId\<close> are such
  \<^verbatim>\<open>$set\<close>s of a number and of an id.
\<close>

datatype update_op =
    Inc string int
  | Push string oid
  | Pull string oid
  | SetNum string int
  | SetId string oid
  | Unset string

fun update_activity :: "update_op \<Rightarrow> activity_doc \<Rightarrow> activity_doc" where
  "update_activity (Inc p k) a =
     (if p = ''activity.total_likes'' then a\<lparr>total_likes := total_likes a + k\<rparr>
      else if p = ''activity.total_reads'' then a\<lparr>total_reads := total_reads a + k\<rparr>
      else if p = ''activity.total_comments'' then a\<lparr>total_comments := total_comments a + k\<rparr>
      else if p = ''activity.total_parent_comments''
        then a\<lparr>total_parent_comments := total_parent_comments a + k\<rparr>
      else a)"
| "update_activity (SetNum p k) a =
     (if p = ''activity.total_likes'' then a\<lparr>total_likes := k\<rparr>
      else if p = ''activity.total_reads'' then a\<lparr>total_reads := k\<rparr>
      else if p = ''activity.total_comments'' then a\<lparr>total_comments := k\<rparr>
      else if p = ''activity.total_parent_comments'' then a\<lparr>total_parent_comments := k\<rparr>
      else a)"
| "update_activity _ a = a"

fun update_blog :: "update_op \<Rightarrow> blog_doc \<Rightarrow> blog_doc" where
  "update_blog (Push p i) b = (if p = ''comments'' then b\<lparr>comments := comments b @ [i]\<rparr> else b)"
| "update_blog (Pull p i) b =
     (if p = ''comments'' then b\<lparr>comments := removeAll i (comments b)\<rparr> else b)"
| "update_blog u b = b\<lparr>activity := update_activity u (activity b)\<rparr>"

fun update_comment :: "update_op \<Rightarrow> comment_doc \<Rightarrow> comment_doc" where
  "update_comment (Push p i) c =
     (if p = ''children'' then c\<lparr>children := children c @ [i]\<rparr> else c)"
| "update_comment (Pull p i) c =
     (if p = ''children'' then c\<lparr>children := removeAll i (children c)\<rparr> else c)"
| "update_comment _ c = c"

fun update_notification :: "update_op \<Rightarrow> notification_doc \<Rightarrow> notification_doc" where
  "update_notification (SetId p i) n = (if p = ''reply'' then n\<lparr>n_reply := Some i\<rparr> else n)"
| "update_notification (Unset p) n = (if p = ''reply'' then n\<lparr>n_reply := None\<rparr> else n)"
| "update_notification _ n = n"

fun update_user :: "update_op \<Rightarrow> user_doc \<Rightarrow> user_doc" where
  "update_user (Inc p k) u =
     (if p = ''account_info.total_posts''
        then u\<lparr>account_info := (account_info u)\<lparr>total_posts := total_posts (account_info u) + k\<rparr>\<rparr>
      else if p = ''account_info.total_reads''
        then u\<lparr>account_info := (account_info u)\<lparr>u_total_reads := u_total_reads (account_info u) + k\<rparr>\<rparr>
      else u)"
| "update_user (Push p i) u = (if p = ''blogs'' then u\<lparr>blogs := blogs u @ [i]\<rparr> else u)"
| "update_user (Pull p i) u = (if p = ''blogs'' then u\<lparr>blogs := removeAll i (blogs u)\<rparr> else u)"
| "update_user _ u = u"

text \<open>The operators of one update document apply to the same document, in any order: they
  are on different paths in every update the server writes.\<close>

definition apply_update :: "(update_op \<Rightarrow> 'a \<Rightarrow> 'a) \<Rightarrow> update_op list \<Rightarrow> 'a \<Rightarrow> 'a" where
  "apply_update upd ops d = fold upd ops d"

section \<open>Requests and responses\<close>

text \<open>
  A handler either sends one response (a status and a JSON body) or none: \<open>NoResponse\<close> is
  an exception thrown inside a promise callback that no \<^verbatim>\<open>catch\<close> handles, so that
  \<^verbatim>\<open>res.json\<close> is never reached.
\<close>

datatype body =
    Error string
  | LikedByUser bool
  | CommentAdded js_string nat oid oid "oid list"
  | BlogId js_string
  | Done
  | NotificationsPage "notification_doc list"
  | BlogsPage "blog_doc list"

datatype response = Response nat body | NoResponse

text \<open>A request field that JavaScript tests for truth: absent, a boolean or a number.\<close>

datatype js_value = JUndefined | JBool bool | JNum int

fun truthy :: "js_value \<Rightarrow> bool" where
  "truthy JUndefined = False"
| "truthy (JBool b) = b"
| "truthy (JNum n) = (n \<noteq> 0)"

text \<open>\<^verbatim>\<open>v > 0\<close>: \<^verbatim>\<open>true\<close> converts to 1, \<^verbatim>\<open>false\<close> to 0, \<^verbatim>\<open>undefined\<close> to NaN.\<close>

fun greater_than_zero :: "js_value \<Rightarrow> bool" where
  "greater_than_zero JUndefined = False"
| "greater_than_zero (JBool b) = b"
| "greater_than_zero (JNum n) = (0 < n)"

section \<open>Liking a blog\<close>

text \<open>
  \<^verbatim>\<open>POST /like-blog\<close> (lines 533 to 563). \<open>user_id\<close> is the caller (\<^verbatim>\<open>req.user\<close>), \<open>new_id\<close>
  the ObjectId and \<open>now\<close> the timestamp that Mongoose gives the new notification. When no
  blog has the id, \<^verbatim>\<open>blog.author\<close> throws on null and nothing handles it.
\<close>

definition like_notification :: "oid \<Rightarrow> oid \<Rightarrow> notification_doc \<Rightarrow> bool" where
  "like_notification user_id i n \<longleftrightarrow> n_user n = user_id \<and> n_blog n = i \<and> n_type n = Like"

definition like_blog :: "oid \<Rightarrow> oid \<Rightarrow> js_value \<Rightarrow> oid \<Rightarrow> nat \<Rightarrow> store \<Rightarrow> response \<times> store" where
  "like_blog user_id i isLikedByUser new_id now s =
     (let incrementVal = (if \<not> truthy isLikedByUser then 1
                          else if greater_than_zero isLikedByUser then - 1 else 0);
          blog = find (\<lambda>b. b_id b = i) (Blogs s);
          s1 = s\<lparr>Blogs := findOneAndUpdate (\<lambda>b. b_id b = i)
                  (apply_update update_blog [Inc ''activity.total_likes'' incrementVal]) (Blogs s)\<rparr>
      in if \<not> truthy isLikedByUser then
           (case blog of
              None \<Rightarrow> (NoResponse, s1)
            | Some b \<Rightarrow>
                (Response 200 (LikedByUser True),
                 s1\<lparr>Notifications := save
                      \<lparr>n_id = new_id, n_type = Like, n_blog = i, notification_for = author b,
                       n_user = user_id, n_comment = None, replied_on_comment = None,
                       n_reply = None, seen = False, createdAt = now\<rparr>
                      (Notifications s1)\<rparr>))
         else
           (Response 200 (LikedByUser False),
            s1\<lparr>Notifications := findOneAndDelete (like_notification user_id i) (Notifications s1)\<rparr>))"

section \<open>Adding a comment\<close>

text \<open>
  \<^verbatim>\<open>POST /add-comment\<close> (lines 579 to 640). The body's fields are \<^verbatim>\<open>_id\<close> (\<open>r_blog\<close>),
  \<^verbatim>\<open>comment\<close>, \<^verbatim>\<open>blog_author\<close>, \<^verbatim>\<open>replying_to\<close> and \<^verbatim>\<open>notification_id\<close>. \<open>new_comment_id\<close> and
  \<open>new_notification_id\<close> are the ObjectIds of the two documents the handler creates.

  The comment is saved first; the blog's update is issued next and not awaited; a reply then
  awaits the update of its parent, whose callback reads \<^verbatim>\<open>commented_by\<close> of the document
  found. When no comment has the parent's id that document is null, the callback throws, the
  awaited promise rejects and the rest of the handler never runs.
\<close>

record add_comment_request =
  r_blog :: oid
  r_comment :: "js_string option"
  r_blog_author :: oid
  replying_to :: "oid option"
  notification_id :: "oid option"

definition add_comment ::
  "oid \<Rightarrow> add_comment_request \<Rightarrow> oid \<Rightarrow> oid \<Rightarrow> nat \<Rightarrow> store \<Rightarrow> response \<times> store" where
  "add_comment user_id req new_comment_id new_notification_id now s =
     (case r_comment req of
        None \<Rightarrow> (Response 403 (Error ''You must write something to leave a comment''), s)
      | Some text \<Rightarrow>
          if text = [] then
            (Response 403 (Error ''You must write something to leave a comment''), s)
          else
            let commentFile =
                  \<lparr>c_id = new_comment_id, c_blog_id = r_blog req,
                   c_blog_author = r_blog_author req, c_comment = text,
                   commented_by = user_id, parent = replying_to req,
                   isReply = (replying_to req \<noteq> None), children = [], commentedAt = now\<rparr>;
                s1 = s\<lparr>Comments := save commentFile (Comments s)\<rparr>;
                s2 = s1\<lparr>Blogs := findOneAndUpdate (\<lambda>b. b_id b = r_blog req)
                        (apply_update update_blog
                           [Push ''comments'' new_comment_id,
                            Inc ''activity.total_comments'' 1,
                            Inc ''activity.total_parent_comments''
                              (if replying_to req \<noteq> None then 0 else 1)])
                        (Blogs s1)\<rparr>;
                notificationObj =
                  \<lparr>n_id = new_notification_id,
                   n_type = (if replying_to req \<noteq> None then Reply else CommentT),
                   n_blog = r_blog req, notification_for = r_blog_author req,
                   n_user = user_id, n_comment = Some new_comment_id,
                   replied_on_comment = None, n_reply = None, seen = False, createdAt = now\<rparr>;
                ok = Response 200 (CommentAdded text now new_comment_id user_id [])
            in case replying_to req of
                 None \<Rightarrow> (ok, s2\<lparr>Notifications := save notificationObj (Notifications s2)\<rparr>)
               | Some p \<Rightarrow>
                   (case find (\<lambda>c. c_id c = p) (Comments s2) of
                      None \<Rightarrow> (NoResponse, s2)
                    | Some replyingToCommentDoc \<Rightarrow>
                        let s3 = s2\<lparr>Comments := findOneAndUpdate (\<lambda>c. c_id c = p)
                                    (apply_update update_comment [Push ''children'' new_comment_id])
                                    (Comments s2)\<rparr>;
                            notificationObj' = notificationObj
                              \<lparr>replied_on_comment := Some p,
                               notification_for := commented_by replyingToCommentDoc\<rparr>;
                            s4 = (case notification_id req of
                                    None \<Rightarrow> s3
                                  | Some n \<Rightarrow>
                                      s3\<lparr>Notifications := findOneAndUpdate (\<lambda>d. n_id d = n)
                                           (apply_update update_notification [SetId ''reply'' new_comment_id])
                                           (Notifications s3)\<rparr>)
                        in (ok, s4\<lparr>Notifications := save notificationObj' (Notifications s4)\<rparr>)))"

section \<open>Creating a blog\<close>

text \<open>
  \<^verbatim>\<open>POST /create-blog\<close> (lines 437 to 505). The slug of a new blog is the title with every
  code unit outside \<^verbatim>\<open>a-z\<close>, \<^verbatim>\<open>A-Z\<close> and \<^verbatim>\<open>0-9\<close> replaced by a space (32), every run of
  white space replaced by a dash (45), trimmed, and followed by the random \<open>nanoid\<close>. After
  the first replacement the title holds letters, digits and spaces only, so that \<^verbatim>\<open>\s+\<close>
  matches runs of spaces; \<open>spaces_to_dash\<close> writes one dash for each run, its flag telling
  whether the code unit before was a space.

  \<open>toLowerCase\<close> stands for \<^verbatim>\<open>String.prototype.toLowerCase\<close>, which follows the case table
  of Unicode; the handler is a function of it. \<open>new_id\<close> is the new blog's ObjectId.
\<close>

definition alphanumeric :: "nat \<Rightarrow> bool" where
  "alphanumeric n \<longleftrightarrow> (48 \<le> n \<and> n \<le> 57) \<or> (65 \<le> n \<and> n \<le> 90) \<or> (97 \<le> n \<and> n \<le> 122)"

fun spaces_to_dash :: "bool \<Rightarrow> js_string \<Rightarrow> js_string" where
  "spaces_to_dash in_run [] = []"
| "spaces_to_dash in_run (c # cs) =
     (if c = 32 then
        (if in_run then spaces_to_dash True cs else 45 # spaces_to_dash True cs)
      else c # spaces_to_dash False cs)"

definition trim :: "js_string \<Rightarrow> js_string" where
  "trim t = rev (dropWhile (\<lambda>d. d = 32) (rev (dropWhile (\<lambda>d. d = 32) t)))"

definition slug :: "js_string \<Rightarrow> js_string \<Rightarrow> js_string" where
  "slug t nanoid =
     trim (spaces_to_dash False (map (\<lambda>c. if alphanumeric c then c else 32) t)) @ nanoid"

record create_blog_request =
  r_title :: js_string
  r_banner :: js_string
  r_desc :: js_string
  r_tags :: "js_string list"
  r_content :: "js_string list"
  r_draft :: js_value
  r_id :: "js_string option"

definition create_blog ::
  "(js_string \<Rightarrow> js_string) \<Rightarrow> oid \<Rightarrow> bool \<Rightarrow> create_blog_request \<Rightarrow> js_string \<Rightarrow> oid \<Rightarrow> nat
     \<Rightarrow> store \<Rightarrow> response \<times> store" where
  "create_blog toLowerCase authorId isAdmin req nanoid new_id now s =
     (if isAdmin then
        if r_title req = [] then
          (Response 403 (Error ''You must provide a title''), s)
        else if \<not> truthy (r_draft req) \<and> (r_desc req = [] \<or> 200 < length (r_desc req)) then
          (Response 403 (Error ''You must provide a blog description under 200 characters''), s)
        else if \<not> truthy (r_draft req) \<and> r_banner req = [] then
          (Response 403 (Error ''You must provide blog banner to publish it''), s)
        else if \<not> truthy (r_draft req) \<and> r_content req = [] then
          (Response 403 (Error ''There must be some blog content to publish it''), s)
        else if \<not> truthy (r_draft req) \<and> (r_tags req = [] \<or> 10 < length (r_tags req)) then
          (Response 403 (Error ''Provide tags to publish it, max 10 tags''), s)
        else
          let tags' = map toLowerCase (r_tags req)
          in (case (case r_id req of None \<Rightarrow> None | Some i \<Rightarrow> if i = [] then None else Some i) of
                Some i \<Rightarrow>
                  (Response 200 (BlogId i),
                   s\<lparr>Blogs := findOneAndUpdate (\<lambda>b. blog_id b = i)
                        (\<lambda>b. b\<lparr>title := r_title req, desc := r_desc req, banner := r_banner req,
                              content := r_content req, tags := tags',
                              draft := truthy (r_draft req)\<rparr>)
                        (Blogs s)\<rparr>)
              | None \<Rightarrow>
                  let blog = \<lparr>b_id = new_id, blog_id = slug (r_title req) nanoid,
                              title = r_title req, banner = r_banner req, desc = r_desc req,
                              content = r_content req, tags = tags', author = authorId,
                              activity = \<lparr>total_likes = 0, total_reads = 0, total_comments = 0,
                                          total_parent_comments = 0\<rparr>,
                              comments = [], draft = truthy (r_draft req), publishedAt = now\<rparr>;
                      incrementVal = (if truthy (r_draft req) then 0 else 1);
                      s1 = s\<lparr>Blogs := save blog (Blogs s)\<rparr>
                  in (Response 200 (BlogId (blog_id blog)),
                      s1\<lparr>Users := findOneAndUpdate (\<lambda>u. u_id u = authorId)
                            (apply_update update_user
                               [Inc ''account_info.total_posts'' incrementVal,
                                Push ''blogs'' (b_id blog)])
                            (Users s1)\<rparr>))
      else
        (Response 500 (Error ''You don't have permissions to create any blog post''), s))"

section \<open>Paginated listings\<close>







section \<open>Deleting a blog\<close>

text \<open>
  \<^verbatim>\<open>POST /delete-blog\<close> (lines 855 to 880). The blog is found by its slug. When there is
  none, \<^verbatim>\<open>blog._id\<close> throws on null and the \<^verbatim>\<open>catch\<close> answers 500 with the message of the
  exception, for which the model writes \<open>''TypeError''\<close>. The user's update is keyed by the
  caller's id and pulls from the path \<^verbatim>\<open>blog\<close>.
\<close>

definition delete_blog :: "oid \<Rightarrow> bool \<Rightarrow> js_string \<Rightarrow> store \<Rightarrow> response \<times> store" where
  "delete_blog user_id isAdmin slg s =
     (if isAdmin then
        (case find (\<lambda>b. blog_id b = slg) (Blogs s) of
           None \<Rightarrow> (Response 500 (Error ''TypeError''), s)
         | Some blog \<Rightarrow>
             let s1 = s\<lparr>Blogs := findOneAndDelete (\<lambda>b. blog_id b = slg) (Blogs s)\<rparr>;
                 s2 = s1\<lparr>Notifications := deleteMany (\<lambda>n. n_blog n = b_id blog) (Notifications s1)\<rparr>;
                 s3 = s2\<lparr>Comments := deleteMany (\<lambda>c. c_blog_id c = b_id blog) (Comments s2)\<rparr>
             in (Response 200 Done,
                 s3\<lparr>Users := findOneAndUpdate (\<lambda>u. u_id u = user_id)
                       (apply_update update_user
                          [Pull ''blog'' (b_id blog), Inc ''account_info.total_posts'' (- 1)])
                       (Users s3)\<rparr>))
      else
        (Response 500 (Error ''You don't have permissions to delete the blog post''), s))"

section \<open>A store to run the handlers on\<close>

text \<open>
  One admin author (user 1) with one published blog (10), a reader (user 2) and a second
  admin (user 3). The blog has two top-level comments, 100 and 103; 101 is a reply to 100
  and 102 a reply to 101. Each comment has its notification (200 to 203); the author
  answered 100 from notification 200, and the reader answered 101 from notification 201.
\<close>

definition example_comment :: "oid \<Rightarrow> oid option \<Rightarrow> oid list \<Rightarrow> oid \<Rightarrow> comment_doc" where
  "example_comment i p cs u =
     \<lparr>c_id = i, c_blog_id = 10, c_blog_author = 1, c_comment = ascii ''text'', commented_by = u,
      parent = p, isReply = (p \<noteq> None), children = cs, commentedAt = i\<rparr>"

definition example_notification ::
  "oid \<Rightarrow> notification_type \<Rightarrow> oid \<Rightarrow> oid \<Rightarrow> oid option \<Rightarrow> oid option \<Rightarrow> oid option
     \<Rightarrow> notification_doc" where
  "example_notification i t for u c on r =
     \<lparr>n_id = i, n_type = t, n_blog = 10, notification_for = for, n_user = u, n_comment = c,
      replied_on_comment = on, n_reply = r, seen = False, createdAt = i\<rparr>"

definition example_store :: store where
  "example_store =
     \<lparr>Users = [\<lparr>u_id = 1, account_info = \<lparr>total_posts = 1, u_total_reads = 7\<rparr>,
                blogs = [10], admin = True\<rparr>,
               \<lparr>u_id = 2, account_info = \<lparr>total_posts = 0, u_total_reads = 0\<rparr>,
                blogs = [], admin = False\<rparr>,
               \<lparr>u_id = 3, account_info = \<lparr>total_posts = 0, u_total_reads = 0\<rparr>,
                blogs = [], admin = True\<rparr>],
      Blogs = [\<lparr>b_id = 10, blog_id = ascii ''post'', title = ascii ''Post'',
                banner = ascii ''b.jpeg'', desc = ascii ''d'', content = [ascii ''block''],
                tags = [ascii ''tag''], author = 1,
                activity = \<lparr>total_likes = 0, total_reads = 7, total_comments = 4,
                            total_parent_comments = 2\<rparr>,
                comments = [100, 101, 102, 103], draft = False, publishedAt = 5\<rparr>],
      Comments = [example_comment 100 None [101] 2,
                  example_comment 101 (Some 100) [102] 1,
                  example_comment 102 (Some 101) [] 2,
                  example_comment 103 None [] 2],
      Notifications = [example_notification 200 CommentT 1 2 (Some 100) None (Some 101),
                       example_notification 201 Reply 2 1 (Some 101) (Some 100) (Some 102),
                       example_notification 202 Reply 1 2 (Some 102) (Some 101) None,
                       example_notification 203 CommentT 1 2 (Some 103) None None]\<rparr>"

text \<open>The author answers comment 103 from its notification 203; a reader answers a comment
  that does not exist.\<close>

definition example_reply :: add_comment_request where
  "example_reply = \<lparr>r_blog = 10, r_comment = Some (ascii ''thanks''), r_blog_author = 1,
                     replying_to = Some 103, notification_id = Some 203\<rparr>"

definition example_orphan_reply :: add_comment_request where
  "example_orphan_reply = \<lparr>r_blog = 10, r_comment = Some (ascii ''thanks''), r_blog_author = 1,
                            replying_to = Some 999, notification_id = None\<rparr>"

text \<open>A post with no tags, neither marked as a draft nor given the slug of an existing
  blog.\<close>

definition example_post :: create_blog_request where
  "example_post = \<lparr>r_title = ascii ''A Title'', r_banner = ascii ''b.jpeg'',
                    r_desc = ascii ''d'', r_tags = [], r_content = [ascii ''block''],
                    r_draft = JUndefined, r_id = None\<rparr>"

section \<open>The tree of replies under a comment\<close>

text \<open>
  The replies of a comment are the documents that its \<^verbatim>\<open>children\<close> array names, and so on
  below them. \<open>comment_tree b cs t\<close> says that the collection \<open>cs\<close> holds the tree \<open>t\<close>:
  every node is the id of a comment of blog \<open>b\<close> whose \<^verbatim>\<open>children\<close> are the roots of the
  node's subtrees, in order. A comment with the tree \<open>t\<close> below it has \<open>descendants t\<close>
  transitive replies.
\<close>

datatype ctree = Node oid "ctree list"

fun root :: "ctree \<Rightarrow> oid" where
  "root (Node i ts) = i"

fun ids :: "ctree \<Rightarrow> oid list" where
  "ids (Node i ts) = i # concat (map ids ts)"

fun descendants :: "ctree \<Rightarrow> nat" where
  "descendants (Node i ts) = length (concat (map ids ts))"

fun comment_tree :: "oid \<Rightarrow> comment_doc list \<Rightarrow> ctree \<Rightarrow> bool" where
  "comment_tree b cs (Node i ts) =
     (case find (\<lambda>c. c_id c = i) cs of
        None \<Rightarrow> False
      | Some c \<Rightarrow> c_blog_id c = b \<and> children c = map root ts \<and> list_all (comment_tree b cs) ts)"

text \<open>The counter \<^verbatim>\<open>activity.total_comments\<close> of the blog with id \<open>b\<close>, when there is one.\<close>

definition blog_total_comments :: "oid \<Rightarrow> store \<Rightarrow> int option" where
  "blog_total_comments b s =
     map_option (\<lambda>x. total_comments (activity x)) (find (\<lambda>x. b_id x = b) (Blogs s))"

text \<open>
  What deleting the trees \<open>ts\<close> does to the comments and to the counter of blog \<open>b\<close>, from
  the store \<open>s\<close> to the store \<open>s'\<close>; the last part says that a tree apart from \<open>ts\<close> is
  still in the collection.
\<close>

definition deletes_trees :: "oid \<Rightarrow> ctree list \<Rightarrow> store \<Rightarrow> store \<Rightarrow> bool" where
  "deletes_trees b ts s s' \<longleftrightarrow>
     length (Comments s') + length (concat (map ids ts)) = length (Comments s) \<and>
     mset (map c_id (Comments s')) + mset (concat (map ids ts)) = mset (map c_id (Comments s)) \<and>
     blog_total_comments b s' =
       map_option (\<lambda>k. k - int (length (concat (map ids ts)))) (blog_total_comments b s) \<and>
     (\<forall>t'. comment_tree b (Comments s) t' \<longrightarrow>
           set (ids t') \<inter> set (concat (map ids ts)) = {} \<longrightarrow>
           comment_tree b (Comments s') t')"

section \<open>The comments that notifications name\<close>

text \<open>
  \<open>notification_refs_unique\<close>: no comment is the \<^verbatim>\<open>comment\<close> of two notifications or the
  \<^verbatim>\<open>reply\<close> of two, and none is both fields of one notification. \<open>unused_comment_id\<close>: no
  notification names the id, as is the case for the ObjectId of a document about to be
  created.
\<close>

definition notification_refs_unique :: "notification_doc list \<Rightarrow> bool" where
  "notification_refs_unique ns \<longleftrightarrow>
     (\<forall>c. length (filter (\<lambda>n. n_comment n = Some c) ns) \<le> 1 \<and>
          length (filter (\<lambda>n. n_reply n = Some c) ns) \<le> 1 \<and>
          filter (\<lambda>n. n_comment n = Some c \<and> n_reply n = Some c) ns = [])"

definition unused_comment_id :: "oid \<Rightarrow> notification_doc list \<Rightarrow> bool" where
  "unused_comment_id c ns \<longleftrightarrow>
     filter (\<lambda>n. n_comment n = Some c) ns = [] \<and> filter (\<lambda>n. n_reply n = Some c) ns = []"

text \<open>
  The notifications without those whose \<^verbatim>\<open>comment\<close> is one of the ids \<open>D\<close>, and without
  the \<^verbatim>\<open>reply\<close> of those that named one of \<open>D\<close> there.
\<close>

definition purge :: "oid list \<Rightarrow> notification_doc list \<Rightarrow> notification_doc list" where
  "purge D ns =
     map (\<lambda>n. if n_reply n \<in> Some ` set D then n\<lparr>n_reply := None\<rparr> else n)
       (filter (\<lambda>n. n_comment n \<notin> Some ` set D) ns)"

section \<open>Deleting a comment and its replies\<close>

text \<open>
  \<^verbatim>\<open>deleteComments\<close> (server.js, lines 689 to 717). The database calls are asynchronous and
  not awaited; the model runs them in the order the source issues them, every call
  succeeding. \<open>deleteComments_then\<close> is the body of the callback that receives the deleted
  comment, down to the update of the blog; \<open>deleteComments_children\<close> is the
  \<^verbatim>\<open>comment.children.map\<close> of the blog update's callback.

  When no comment has the id, \<^verbatim>\<open>findOneAndDelete\<close> yields null, \<^verbatim>\<open>comment.parent\<close> throws,
  and the \<^verbatim>\<open>catch\<close> logs the error: the store is unchanged.

  In the blog's update the key \<^verbatim>\<open>"activity.total_parent_comments"\<close> stands beside \<^verbatim>\<open>$inc\<close>,
  not inside it, so that it is a \<^verbatim>\<open>$set\<close> and not an increment.
\<close>

definition deleteComments_then :: "oid \<Rightarrow> comment_doc \<Rightarrow> store \<Rightarrow> store" where
  "deleteComments_then i comment s =
     (let s1 = (case parent comment of
                  Some p \<Rightarrow> s\<lparr>Comments := findOneAndUpdate (\<lambda>c. c_id c = p)
                                 (apply_update update_comment [Pull ''children'' i]) (Comments s)\<rparr>
                | None \<Rightarrow> s);
          s2 = s1\<lparr>Notifications := findOneAndDelete (\<lambda>n. n_comment n = Some i) (Notifications s1)\<rparr>;
          s3 = s2\<lparr>Notifications := findOneAndUpdate (\<lambda>n. n_reply n = Some i)
                     (apply_update update_notification [Unset ''reply'']) (Notifications s2)\<rparr>
      in s3\<lparr>Blogs := findOneAndUpdate (\<lambda>b. b_id b = c_blog_id comment)
                (apply_update update_blog
                   [Pull ''comments'' i,
                    Inc ''activity.total_comments'' (- 1),
                    SetNum ''activity.total_parent_comments''
                      (if parent comment \<noteq> None then 0 else - 1)])
                (Blogs s3)\<rparr>)"

function deleteComments :: "oid \<Rightarrow> store \<Rightarrow> store"
  and deleteComments_children :: "oid list \<Rightarrow> store \<Rightarrow> store" where
  "deleteComments i s =
     (case find (\<lambda>c. c_id c = i) (Comments s) of
        None \<Rightarrow> s
      | Some comment \<Rightarrow>
          deleteComments_children (children comment)
            (deleteComments_then i comment
               (s\<lparr>Comments := findOneAndDelete (\<lambda>c. c_id c = i) (Comments s)\<rparr>)))"
| "deleteComments_children [] s = s"
| "deleteComments_children (replies # rest) s =
     deleteComments_children rest (deleteComments replies s)"
  by pat_completeness auto

lemma length_findOneAndUpdate [simp]: "length (findOneAndUpdate P f xs) = length xs"
  by (induction xs) auto

lemma length_findOneAndDelete_le: "length (findOneAndDelete P xs) \<le> length xs"
  by (induction xs) auto

lemma length_findOneAndDelete_find:
  "find P xs = Some x \<Longrightarrow> Suc (length (findOneAndDelete P xs)) = length xs"
  by (induction xs) (auto split: if_splits)

lemma length_Comments_deleteComments_then [simp]:
  "length (Comments (deleteComments_then i c s)) = length (Comments s)"
  by (simp add: deleteComments_then_def Let_def split: option.splits)

text \<open>Neither function adds a comment, which is what the nested call needs to terminate.\<close>

lemma deleteComments_dom_le:
  "deleteComments_deleteComments_children_dom (Inl (i, s)) \<Longrightarrow>
     length (Comments (deleteComments i s)) \<le> length (Comments s)"
  "deleteComments_deleteComments_children_dom (Inr (is, s)) \<Longrightarrow>
     length (Comments (deleteComments_children is s)) \<le> length (Comments s)"
proof (induction i s and "is" s rule: deleteComments_deleteComments_children.pinduct)
  case (1 i s)
  show ?case
  proof (cases "find (\<lambda>c. c_id c = i) (Comments s)")
    case None
    then show ?thesis using 1(1) by (simp add: deleteComments.psimps)
  next
    case (Some c)
    have "length (Comments (deleteComments_children (children c)
            (deleteComments_then i c
               (s\<lparr>Comments := findOneAndDelete (\<lambda>c. c_id c = i) (Comments s)\<rparr>))))
          \<le> length (findOneAndDelete (\<lambda>c. c_id c = i) (Comments s))"
      using 1(2)[OF Some] by simp
    also have "\<dots> \<le> length (Comments s)" by (rule length_findOneAndDelete_le)
    finally show ?thesis using 1(1) Some by (simp add: deleteComments.psimps)
  qed
next
  case (2 s)
  then show ?case by (simp add: deleteComments_children.psimps)
next
  case (3 replies rest s)
  then show ?case by (simp add: deleteComments_children.psimps)
qed

termination deleteComments
proof (relation "measures
    [\<lambda>x. case x of Inl (i, s) \<Rightarrow> length (Comments s) | Inr (is, s) \<Rightarrow> length (Comments s),
     \<lambda>x. case x of Inl (i, s) \<Rightarrow> 0 | Inr (is, s) \<Rightarrow> Suc (length is)]", goal_cases)
  case 1
  show ?case by simp
next
  case (2 i s c)
  then show ?case using length_findOneAndDelete_find[OF 2] by simp
next
  case (3 replies rest s)
  then show ?case by simp
next
  case (4 replies rest s)
  then show ?case using deleteComments_dom_le(1)[OF 4] by auto
qed

declare deleteComments.simps [simp del]

lemmas example_defs = example_store_def example_comment_def example_notification_def ascii_def

section \<open>The counter of top-level comments on deletion\<close>

text \<open>
  The value that the blog's update writes does not depend on the counter: after the update
  the counter is 0 for a reply and -1 for a top-level comment, whatever it was.
\<close>

lemma deleteComments_then_total_parent_comments:
  "find (\<lambda>b. b_id b = c_blog_id comment) (Blogs s) = Some blog \<Longrightarrow>
     map_option (\<lambda>b. total_parent_comments (activity b))
       (find (\<lambda>b. b_id b = c_blog_id comment) (Blogs (deleteComments_then i comment s))) =
     Some (if parent comment \<noteq> None then 0 else - 1)"
proof -
  have "find (\<lambda>c. b_id c = j) (findOneAndUpdate (\<lambda>c. b_id c = j) f bs) =
          map_option f (find (\<lambda>c. b_id c = j) bs)"
    if "\<And>c. b_id (f c) = b_id c" for f j and bs :: "blog_doc list"
    using that by (induction bs) auto
  then show "find (\<lambda>b. b_id b = c_blog_id comment) (Blogs s) = Some blog \<Longrightarrow> ?thesis"
    by (simp add: deleteComments_then_def Let_def apply_update_def split: option.splits)
qed

text \<open>
  Claim C1: deleting a top-level comment takes exactly 1 from the blog's
  \<^verbatim>\<open>activity.total_parent_comments\<close>, and deleting a reply leaves it as it is.

  The code does neither. On the example store the counter is 2. Deleting the top-level
  comment 103 leaves it at -1, not 1; deleting the reply 102 leaves it at 0, not 2: the value
  meant as a delta is written over the counter.
\<close>

theorem deleteComments_overwrites_total_parent_comments:
  "map (\<lambda>b. total_parent_comments (activity b)) (Blogs example_store) = [2] \<and>
   map (\<lambda>b. total_parent_comments (activity b)) (Blogs (deleteComments 103 example_store)) = [- 1] \<and>
   map (\<lambda>b. total_parent_comments (activity b)) (Blogs (deleteComments 102 example_store)) = [0]"
  by (simp add: example_defs deleteComments.simps deleteComments_then_def apply_update_def)

section \<open>Deleting a comment with its replies\<close>

lemma root_in_ids: "root t \<in> set (ids t)"
  by (cases t) simp

lemma find_id_findOneAndDelete:
  "j \<noteq> i \<Longrightarrow>
     find (\<lambda>c. c_id c = j) (findOneAndDelete (\<lambda>c. c_id c = i) cs) = find (\<lambda>c. c_id c = j) cs"
  by (induction cs) auto

lemma find_id_findOneAndUpdate:
  "(\<And>c. c_id (f c) = c_id c) \<Longrightarrow>
   find (\<lambda>c. c_id c = j) (findOneAndUpdate (\<lambda>c. c_id c = p) f cs) =
     (if j = p then map_option f (find (\<lambda>c. c_id c = j) cs) else find (\<lambda>c. c_id c = j) cs)"
  by (induction cs) auto

lemma find_b_id_findOneAndUpdate:
  "(\<And>c. b_id (f c) = b_id c) \<Longrightarrow>
   find (\<lambda>c. b_id c = j) (findOneAndUpdate (\<lambda>c. b_id c = p) f cs) =
     (if j = p then map_option f (find (\<lambda>c. b_id c = j) cs) else find (\<lambda>c. b_id c = j) cs)"
  by (induction cs) auto

lemma map_c_id_findOneAndUpdate:
  "(\<And>c. c_id (f c) = c_id c) \<Longrightarrow> map c_id (findOneAndUpdate P f cs) = map c_id cs"
  by (induction cs) auto

lemma mset_ids_findOneAndDelete:
  "find (\<lambda>c. c_id c = i) cs = Some c \<Longrightarrow>
     mset (map c_id (findOneAndDelete (\<lambda>c. c_id c = i) cs)) + {#i#} = mset (map c_id cs)"
  by (induction cs) (auto split: if_splits)

text \<open>A tree stays in the collection when a comment outside it is deleted, and when the id
  of such a comment is pulled from some comment's \<^verbatim>\<open>children\<close>.\<close>

lemma comment_tree_delete:
  "comment_tree b cs t \<Longrightarrow> x \<notin> set (ids t) \<Longrightarrow>
     comment_tree b (findOneAndDelete (\<lambda>c. c_id c = x) cs) t"
proof (induction t)
  case (Node i ts)
  then show ?case
    by (auto simp: find_id_findOneAndDelete list_all_iff split: option.splits)
qed

lemma comment_tree_pull:
  "comment_tree b cs t \<Longrightarrow> x \<notin> set (ids t) \<Longrightarrow>
     comment_tree b (findOneAndUpdate (\<lambda>c. c_id c = p)
        (apply_update update_comment [Pull ''children'' x]) cs) t"
proof (induction t)
  case (Node i ts)
  have nx: "x \<notin> root ` set ts"
    using Node.prems(2) root_in_ids by fastforce
  have "removeAll x (map root ts) = map root ts"
    using nx by (simp add: removeAll_id)
  with Node show ?case
    by (auto simp: find_id_findOneAndUpdate apply_update_def list_all_iff split: option.splits)
qed

lemma Comments_deleteComments_then:
  "Comments (deleteComments_then i c s) =
     (case parent c of
        None \<Rightarrow> Comments s
      | Some p \<Rightarrow> findOneAndUpdate (\<lambda>c. c_id c = p)
                    (apply_update update_comment [Pull ''children'' i]) (Comments s))"
  by (simp add: deleteComments_then_def Let_def split: option.splits)

lemma map_c_id_deleteComments_then:
  "map c_id (Comments (deleteComments_then i c s)) = map c_id (Comments s)"
  by (simp add: Comments_deleteComments_then map_c_id_findOneAndUpdate apply_update_def
      split: option.splits)

lemma comment_tree_deleteComments_then:
  "comment_tree b (Comments s) t \<Longrightarrow> x \<notin> set (ids t) \<Longrightarrow>
     comment_tree b (Comments (deleteComments_then x c s)) t"
  by (simp add: Comments_deleteComments_then comment_tree_pull split: option.splits)

lemma blog_total_comments_deleteComments_then:
  "blog_total_comments b (deleteComments_then i c s) =
     (if c_blog_id c = b then map_option (\<lambda>k. k - 1) (blog_total_comments b s)
      else blog_total_comments b s)"
  by (simp add: blog_total_comments_def deleteComments_then_def Let_def
      find_b_id_findOneAndUpdate apply_update_def option.map_comp comp_def split: option.splits)

text \<open>The replies one after the other, given what deleting each of them does.\<close>

lemma deleteComments_children_forest:
  assumes each: "\<And>t s. t \<in> set ts \<Longrightarrow> comment_tree b (Comments s) t \<Longrightarrow> distinct (ids t) \<Longrightarrow>
                   deletes_trees b [t] s (deleteComments (root t) s)"
  shows "list_all (comment_tree b (Comments s)) ts \<Longrightarrow> distinct (concat (map ids ts)) \<Longrightarrow>
           deletes_trees b ts s (deleteComments_children (map root ts) s)"
  using each
proof (induction ts arbitrary: s)
  case Nil
  then show ?case by (simp add: deletes_trees_def option.map_ident)
next
  case (Cons t rest)
  let ?s1 = "deleteComments (root t) s"
  have t_in: "comment_tree b (Comments s) t"
    and rest_in: "list_all (comment_tree b (Comments s)) rest"
    using Cons.prems(1) by simp_all
  have dt: "distinct (ids t)" and dr: "distinct (concat (map ids rest))"
    and disj: "set (ids t) \<inter> set (concat (map ids rest)) = {}"
    using Cons.prems(2) by simp_all
  have step: "deletes_trees b [t] s ?s1"
    using Cons.prems(3)[of t s] t_in dt by simp
  have "list_all (comment_tree b (Comments ?s1)) rest"
    unfolding list_all_iff
  proof
    fix t' assume t': "t' \<in> set rest"
    then have "comment_tree b (Comments s) t'"
      using rest_in by (simp add: list_all_iff)
    moreover have "set (ids t') \<inter> set (concat (map ids [t])) = {}"
      using disj t' by auto
    ultimately show "comment_tree b (Comments ?s1) t'"
      using step by (simp add: deletes_trees_def)
  qed
  then have tail: "deletes_trees b rest ?s1 (deleteComments_children (map root rest) ?s1)"
    using Cons.IH[of ?s1] dr Cons.prems(3) by simp
  show ?case
    using step tail
    by (simp add: deletes_trees_def option.map_comp comp_def Int_Un_distrib)
      (auto simp: algebra_simps)
qed

lemma deleteComments_tree:
  "comment_tree b (Comments s) t \<Longrightarrow> distinct (ids t) \<Longrightarrow>
     deletes_trees b [t] s (deleteComments (root t) s)"
proof (induction t arbitrary: s)
  case (Node i ts)
  from Node.prems(1) obtain c where
    c: "find (\<lambda>c. c_id c = i) (Comments s) = Some c" and
    cb: "c_blog_id c = b" and ch: "children c = map root ts" and
    sub: "list_all (comment_tree b (Comments s)) ts"
    by (auto split: option.splits)
  let ?d = "s\<lparr>Comments := findOneAndDelete (\<lambda>c. c_id c = i) (Comments s)\<rparr>"
  let ?s0 = "deleteComments_then i c ?d"
  have ni: "i \<notin> set (concat (map ids ts))" and dts: "distinct (concat (map ids ts))"
    using Node.prems(2) by simp_all
  have keep: "comment_tree b (Comments ?s0) t'"
    if "comment_tree b (Comments s) t'" "i \<notin> set (ids t')" for t'
    using that by (simp add: comment_tree_deleteComments_then comment_tree_delete)
  have "list_all (comment_tree b (Comments ?s0)) ts"
    unfolding list_all_iff
  proof
    fix t' assume "t' \<in> set ts"
    then show "comment_tree b (Comments ?s0) t'"
      using sub ni keep[of t'] by (auto simp: list_all_iff)
  qed
  then have forest: "deletes_trees b ts ?s0 (deleteComments_children (map root ts) ?s0)"
    using deleteComments_children_forest[of ts b ?s0] Node.IH dts by blast
  have run: "deleteComments i s = deleteComments_children (map root ts) ?s0"
    using c ch by (simp add: deleteComments.simps)
  have len0: "Suc (length (Comments ?s0)) = length (Comments s)"
    using length_findOneAndDelete_find[OF c] by simp
  have ids0: "mset (map c_id (Comments ?s0)) + {#i#} = mset (map c_id (Comments s))"
    using mset_ids_findOneAndDelete[OF c] by (simp add: map_c_id_deleteComments_then)
  have cnt0: "blog_total_comments b ?s0 = map_option (\<lambda>k. k - 1) (blog_total_comments b s)"
  proof -
    have "blog_total_comments b ?s0 = map_option (\<lambda>k. k - 1) (blog_total_comments b ?d)"
      using cb by (simp add: blog_total_comments_deleteComments_then)
    then show ?thesis by (simp add: blog_total_comments_def)
  qed
  show ?case
    using forest len0 ids0 cnt0 keep
    by (simp add: run deletes_trees_def option.map_comp comp_def) (auto simp: algebra_simps)
qed

text \<open>
  Claim C2: a comment with \<open>N\<close> transitive replies in its tree of children is deleted with
  all of them: \<^verbatim>\<open>deleteComments\<close> removes exactly \<open>N + 1\<close> comment documents, those of the
  tree, and takes exactly \<open>N + 1\<close> from \<^verbatim>\<open>activity.total_comments\<close> of the blog they belong
  to.
\<close>

theorem deleteComments_removes_subtree:
  assumes "comment_tree b (Comments s) t"
    and "distinct (ids t)"
    and "find (\<lambda>x. b_id x = b) (Blogs s) = Some blog"
  shows "length (Comments (deleteComments (root t) s)) + (descendants t + 1) = length (Comments s) \<and>
         mset (map c_id (Comments (deleteComments (root t) s))) + mset (ids t) =
           mset (map c_id (Comments s)) \<and>
         blog_total_comments b (deleteComments (root t) s) =
           Some (total_comments (activity blog) - (int (descendants t) + 1))"
proof -
  have len: "length (ids t) = descendants t + 1"
    by (cases t) simp
  have "deletes_trees b [t] s (deleteComments (root t) s)"
    using assms(1,2) by (rule deleteComments_tree)
  then show ?thesis
    using assms(3) len by (auto simp: deletes_trees_def blog_total_comments_def algebra_simps)
qed

theorem deleteComments_removes_subtree_witness:
  "comment_tree 10 (Comments example_store) (Node 100 [Node 101 [Node 102 []]]) \<and>
   distinct (ids (Node 100 [Node 101 [Node 102 []]])) \<and>
   descendants (Node 100 [Node 101 [Node 102 []]]) = 2 \<and>
   length (Comments example_store) = 4 \<and>
   length (Comments (deleteComments 100 example_store)) = 1 \<and>
   blog_total_comments 10 example_store = Some 4 \<and>
   blog_total_comments 10 (deleteComments 100 example_store) = Some 1"
proof -
  let ?t = "Node 100 [Node 101 [Node 102 []]]"
  have h1: "comment_tree 10 (Comments example_store) ?t"
    by (simp add: example_defs)
  have h2: "distinct (ids ?t)"
    by simp
  have h3: "find (\<lambda>x. b_id x = 10) (Blogs example_store) = Some (hd (Blogs example_store))"
    by (simp add: example_defs)
  have "total_comments (activity (hd (Blogs example_store))) = 4"
    and "length (Comments example_store) = 4"
    and "blog_total_comments 10 example_store = Some 4"
    by (simp_all add: example_defs blog_total_comments_def)
  then show ?thesis
    using deleteComments_removes_subtree[OF h1 h2 h3] h1 h2 by simp
qed

section \<open>Notifications of a deleted comment\<close>

text \<open>
  \<^verbatim>\<open>findOneAndDelete\<close> and \<^verbatim>\<open>findOneAndUpdate\<close> reach the first match only. A comment has
  one notification that names it as \<^verbatim>\<open>comment\<close>, made when the comment was added, and at
  most one that names it as \<^verbatim>\<open>reply\<close>, the one the reply answered; no handler writes either
  field a second time. With at most one match, the first match is every match.
\<close>

lemma findOneAndDelete_unique:
  "length (filter P xs) \<le> 1 \<Longrightarrow> findOneAndDelete P xs = filter (\<lambda>x. \<not> P x) xs"
proof (induction xs)
  case Nil
  then show ?case by simp
next
  case (Cons x xs)
  show ?case
  proof (cases "P x")
    case True
    then have "filter P xs = []" using Cons.prems by simp
    then have "filter (\<lambda>x. \<not> P x) xs = xs"
      by (metis (mono_tags, lifting) filter_False filter_True filter_empty_conv)
    then show ?thesis using True by simp
  next
    case False
    then show ?thesis using Cons by simp
  qed
qed

lemma findOneAndUpdate_unique:
  "length (filter P xs) \<le> 1 \<Longrightarrow> findOneAndUpdate P f xs = map (\<lambda>x. if P x then f x else x) xs"
proof (induction xs)
  case Nil
  then show ?case by simp
next
  case (Cons x xs)
  show ?case
  proof (cases "P x")
    case True
    then have "filter P xs = []" using Cons.prems by simp
    then have "map (\<lambda>x. if P x then f x else x) xs = xs"
      by (induction xs) (auto split: if_splits)
    then show ?thesis using True by simp
  next
    case False
    then show ?thesis using Cons by simp
  qed
qed

lemma length_filter_filter_le:
  "length (filter P (filter Q xs)) \<le> length (filter P xs)"
  by (induction xs) auto

lemma Notifications_deleteComments_then:
  "Notifications (deleteComments_then c cm s) =
     findOneAndUpdate (\<lambda>n. n_reply n = Some c) (apply_update update_notification [Unset ''reply''])
       (findOneAndDelete (\<lambda>n. n_comment n = Some c) (Notifications s))"
  by (simp add: deleteComments_then_def Let_def split: option.splits)

lemma Notifications_deleteComments_then_unique:
  assumes "length (filter (\<lambda>n. n_comment n = Some c) (Notifications s)) \<le> 1"
    and "length (filter (\<lambda>n. n_reply n = Some c) (Notifications s)) \<le> 1"
  shows "Notifications (deleteComments_then c cm s) =
           map (\<lambda>n. if n_reply n = Some c then n\<lparr>n_reply := None\<rparr> else n)
             (filter (\<lambda>n. n_comment n \<noteq> Some c) (Notifications s))"
proof -
  have "length (filter (\<lambda>n. n_reply n = Some c)
          (filter (\<lambda>n. n_comment n \<noteq> Some c) (Notifications s))) \<le> 1"
    using assms(2) length_filter_filter_le[of "\<lambda>n. n_reply n = Some c" "\<lambda>n. n_comment n \<noteq> Some c" "Notifications s"]
    by linarith
  then show ?thesis
    using assms(1)
    by (simp add: Notifications_deleteComments_then findOneAndDelete_unique
        findOneAndUpdate_unique apply_update_def)
qed

text \<open>
  Claim C3: when the comment with id \<open>c\<close> is deleted, every notification whose \<^verbatim>\<open>comment\<close>
  is \<open>c\<close> is deleted, and every notification whose \<^verbatim>\<open>reply\<close> is \<open>c\<close> has that field
  cleared and stays in the collection.

  \<^verbatim>\<open>deleteComments\<close> does this for the comment it has found, before it goes on to the
  comment's children. The store has at most one notification of each kind for \<open>c\<close>, and
  none that names \<open>c\<close> in both fields. The notifications are then exactly those of before
  without the one whose \<^verbatim>\<open>comment\<close> was \<open>c\<close>, in the same order, the one whose \<^verbatim>\<open>reply\<close>
  was \<open>c\<close> without that field and every other as it was. For a comment without children
  this is the collection that \<^verbatim>\<open>deleteComments\<close> leaves.
\<close>

theorem deleteComments_notifications:
  assumes "find (\<lambda>x. c_id x = c) (Comments s) = Some cm"
    and "length (filter (\<lambda>n. n_comment n = Some c) (Notifications s)) \<le> 1"
    and "length (filter (\<lambda>n. n_reply n = Some c) (Notifications s)) \<le> 1"
    and "filter (\<lambda>n. n_comment n = Some c \<and> n_reply n = Some c) (Notifications s) = []"
  shows "deleteComments c s =
           deleteComments_children (children cm)
             (deleteComments_then c cm
                (s\<lparr>Comments := findOneAndDelete (\<lambda>x. c_id x = c) (Comments s)\<rparr>)) \<and>
         Notifications (deleteComments_then c cm
                (s\<lparr>Comments := findOneAndDelete (\<lambda>x. c_id x = c) (Comments s)\<rparr>)) =
           map (\<lambda>n. if n_reply n = Some c then n\<lparr>n_reply := None\<rparr> else n)
             (filter (\<lambda>n. n_comment n \<noteq> Some c) (Notifications s)) \<and>
         (children cm = [] \<longrightarrow>
            Notifications (deleteComments c s) =
              map (\<lambda>n. if n_reply n = Some c then n\<lparr>n_reply := None\<rparr> else n)
                (filter (\<lambda>n. n_comment n \<noteq> Some c) (Notifications s))) \<and>
         (\<forall>n \<in> set (Notifications (deleteComments_then c cm
                (s\<lparr>Comments := findOneAndDelete (\<lambda>x. c_id x = c) (Comments s)\<rparr>))).
            n_comment n \<noteq> Some c \<and> n_reply n \<noteq> Some c) \<and>
         (\<forall>n \<in> set (Notifications s). n_reply n = Some c \<longrightarrow>
            n\<lparr>n_reply := None\<rparr> \<in> set (Notifications (deleteComments_then c cm
                (s\<lparr>Comments := findOneAndDelete (\<lambda>x. c_id x = c) (Comments s)\<rparr>)))) \<and>
         (\<forall>n \<in> set (Notifications s). n_comment n \<noteq> Some c \<and> n_reply n \<noteq> Some c \<longrightarrow>
            n \<in> set (Notifications (deleteComments_then c cm
                (s\<lparr>Comments := findOneAndDelete (\<lambda>x. c_id x = c) (Comments s)\<rparr>))))"
proof -
  let ?d = "s\<lparr>Comments := findOneAndDelete (\<lambda>x. c_id x = c) (Comments s)\<rparr>"
  let ?after = "map (\<lambda>n. if n_reply n = Some c then n\<lparr>n_reply := None\<rparr> else n)
                  (filter (\<lambda>n. n_comment n \<noteq> Some c) (Notifications s))"
  have eq: "Notifications (deleteComments_then c cm ?d) = ?after"
    using Notifications_deleteComments_then_unique[of c ?d cm] assms(2,3) by simp
  have both: "n_comment n \<noteq> Some c" if "n \<in> set (Notifications s)" "n_reply n = Some c" for n
    using assms(4) that by (auto simp: filter_empty_conv)
  have run: "deleteComments c s =
               deleteComments_children (children cm) (deleteComments_then c cm ?d)"
    using assms(1) by (simp add: deleteComments.simps)
  have leaf: "Notifications (deleteComments c s) = ?after" if "children cm = []"
    using that eq by (simp add: run)
  have gone: "\<forall>n \<in> set (Notifications (deleteComments_then c cm ?d)).
      n_comment n \<noteq> Some c \<and> n_reply n \<noteq> Some c"
    unfolding eq by auto
  have cleared: "\<forall>n \<in> set (Notifications s). n_reply n = Some c \<longrightarrow>
      n\<lparr>n_reply := None\<rparr> \<in> set (Notifications (deleteComments_then c cm ?d))"
    unfolding eq using both by force
  have others: "\<forall>n \<in> set (Notifications s). n_comment n \<noteq> Some c \<and> n_reply n \<noteq> Some c \<longrightarrow>
      n \<in> set (Notifications (deleteComments_then c cm ?d))"
    unfolding eq by force
  show ?thesis
    using run eq leaf gone cleared others by blast
qed

theorem deleteComments_notifications_witness:
  "find (\<lambda>x. c_id x = 102) (Comments example_store) = Some (example_comment 102 (Some 101) [] 2) \<and>
   length (filter (\<lambda>n. n_comment n = Some 102) (Notifications example_store)) = 1 \<and>
   length (filter (\<lambda>n. n_reply n = Some 102) (Notifications example_store)) = 1 \<and>
   filter (\<lambda>n. n_comment n = Some 102 \<and> n_reply n = Some 102) (Notifications example_store) = [] \<and>
   Notifications example_store =
     [example_notification 200 CommentT 1 2 (Some 100) None (Some 101),
      example_notification 201 Reply 2 1 (Some 101) (Some 100) (Some 102),
      example_notification 202 Reply 1 2 (Some 102) (Some 101) None,
      example_notification 203 CommentT 1 2 (Some 103) None None] \<and>
   Notifications (deleteComments 102 example_store) =
     [example_notification 200 CommentT 1 2 (Some 100) None (Some 101),
      example_notification 201 Reply 2 1 (Some 101) (Some 100) None,
      example_notification 203 CommentT 1 2 (Some 103) None None]"
proof -
  have h1: "find (\<lambda>x. c_id x = 102) (Comments example_store) =
              Some (example_comment 102 (Some 101) [] 2)"
    by (simp add: example_defs)
  have c1: "length (filter (\<lambda>n. n_comment n = Some 102) (Notifications example_store)) = 1"
    and c2: "length (filter (\<lambda>n. n_reply n = Some 102) (Notifications example_store)) = 1"
    by (simp_all add: example_defs)
  have h4: "filter (\<lambda>n. n_comment n = Some 102 \<and> n_reply n = Some 102)
              (Notifications example_store) = []"
    by (simp add: example_defs)
  have h2: "length (filter (\<lambda>n. n_comment n = Some 102) (Notifications example_store)) \<le> 1"
    and h3: "length (filter (\<lambda>n. n_reply n = Some 102) (Notifications example_store)) \<le> 1"
    using c1 c2 by simp_all
  have before: "Notifications example_store =
     [example_notification 200 CommentT 1 2 (Some 100) None (Some 101),
      example_notification 201 Reply 2 1 (Some 101) (Some 100) (Some 102),
      example_notification 202 Reply 1 2 (Some 102) (Some 101) None,
      example_notification 203 CommentT 1 2 (Some 103) None None]"
    by (simp add: example_store_def)
  have leaf: "children (example_comment 102 (Some 101) [] 2) = []"
    by (simp add: example_comment_def)
  have "Notifications (deleteComments 102 example_store) =
          map (\<lambda>n. if n_reply n = Some 102 then n\<lparr>n_reply := None\<rparr> else n)
            (filter (\<lambda>n. n_comment n \<noteq> Some 102) (Notifications example_store))"
    using deleteComments_notifications[OF h1 h2 h3 h4] leaf by blast
  also have "\<dots> =
     [example_notification 200 CommentT 1 2 (Some 100) None (Some 101),
      example_notification 201 Reply 2 1 (Some 101) (Some 100) None,
      example_notification 203 CommentT 1 2 (Some 103) None None]"
    by (simp add: before) (simp add: example_notification_def)
  finally show ?thesis
    using h1 c1 c2 h4 before by blast
qed

subsection \<open>The stores that the handlers build\<close>

text \<open>
  The collection of notifications starts empty, and every handler that writes to it keeps
  \<open>notification_refs_unique\<close>, \<^verbatim>\<open>add-comment\<close> for a new comment whose id no notification
  names yet. So the three hypotheses on the notifications of a deleted comment hold in every
  store that the handlers build.
\<close>

lemma refs_unique_Nil: "notification_refs_unique []"
  by (simp add: notification_refs_unique_def)

lemma length_filter_findOneAndDelete_le:
  "length (filter P (findOneAndDelete Q xs)) \<le> length (filter P xs)"
  by (induction xs) auto

lemma refs_unique_shrink:
  assumes "notification_refs_unique ns"
    and "\<And>P. length (filter P ms) \<le> length (filter P ns)"
  shows "notification_refs_unique ms"
  unfolding notification_refs_unique_def
proof (intro allI conjI)
  fix c
  have u: "length (filter (\<lambda>n. n_comment n = Some c) ns) \<le> 1"
    "length (filter (\<lambda>n. n_reply n = Some c) ns) \<le> 1"
    "length (filter (\<lambda>n. n_comment n = Some c \<and> n_reply n = Some c) ns) = 0"
    using assms(1) by (simp_all add: notification_refs_unique_def)
  show "length (filter (\<lambda>n. n_comment n = Some c) ms) \<le> 1"
    using assms(2)[of "\<lambda>n. n_comment n = Some c"] u(1) by linarith
  show "length (filter (\<lambda>n. n_reply n = Some c) ms) \<le> 1"
    using assms(2)[of "\<lambda>n. n_reply n = Some c"] u(2) by linarith
  have "length (filter (\<lambda>n. n_comment n = Some c \<and> n_reply n = Some c) ms) = 0"
    using assms(2)[of "\<lambda>n. n_comment n = Some c \<and> n_reply n = Some c"] u(3) by linarith
  then show "filter (\<lambda>n. n_comment n = Some c \<and> n_reply n = Some c) ms = []"
    by simp
qed

lemma refs_unique_findOneAndDelete:
  "notification_refs_unique ns \<Longrightarrow> notification_refs_unique (findOneAndDelete Q ns)"
  by (erule refs_unique_shrink) (rule length_filter_findOneAndDelete_le)

lemma refs_unique_filter:
  "notification_refs_unique ns \<Longrightarrow> notification_refs_unique (filter Q ns)"
  by (erule refs_unique_shrink) (rule length_filter_filter_le)

lemma refs_unique_unset_reply:
  assumes "notification_refs_unique ns"
  shows "notification_refs_unique (findOneAndUpdate Q (\<lambda>n. n\<lparr>n_reply := None\<rparr>) ns)"
  unfolding notification_refs_unique_def
proof (intro allI conjI)
  fix c
  have u: "length (filter (\<lambda>n. n_comment n = Some c) ns) \<le> 1"
    "length (filter (\<lambda>n. n_reply n = Some c) ns) \<le> 1"
    "filter (\<lambda>n. n_comment n = Some c \<and> n_reply n = Some c) ns = []"
    using assms by (simp_all add: notification_refs_unique_def)
  have a: "length (filter (\<lambda>n. n_comment n = Some c) (findOneAndUpdate Q (\<lambda>n. n\<lparr>n_reply := None\<rparr>) xs)) =
           length (filter (\<lambda>n. n_comment n = Some c) xs)" for xs :: "notification_doc list"
    by (induction xs) auto
  have b: "length (filter (\<lambda>n. n_reply n = Some c) (findOneAndUpdate Q (\<lambda>n. n\<lparr>n_reply := None\<rparr>) xs)) \<le>
           length (filter (\<lambda>n. n_reply n = Some c) xs)" for xs :: "notification_doc list"
    by (induction xs) auto
  have c: "filter (\<lambda>n. n_comment n = Some c \<and> n_reply n = Some c) xs = [] \<Longrightarrow>
           filter (\<lambda>n. n_comment n = Some c \<and> n_reply n = Some c)
             (findOneAndUpdate Q (\<lambda>n. n\<lparr>n_reply := None\<rparr>) xs) = []" for xs :: "notification_doc list"
    by (induction xs) (auto split: if_splits)
  show "length (filter (\<lambda>n. n_comment n = Some c)
          (findOneAndUpdate Q (\<lambda>n. n\<lparr>n_reply := None\<rparr>) ns)) \<le> 1"
    using a[of ns] u(1) by simp
  show "length (filter (\<lambda>n. n_reply n = Some c)
          (findOneAndUpdate Q (\<lambda>n. n\<lparr>n_reply := None\<rparr>) ns)) \<le> 1"
    using b[of ns] u(2) by linarith
  show "filter (\<lambda>n. n_comment n = Some c \<and> n_reply n = Some c)
          (findOneAndUpdate Q (\<lambda>n. n\<lparr>n_reply := None\<rparr>) ns) = []"
    using c[OF u(3)] .
qed

lemma refs_unique_deleteComments_then:
  "notification_refs_unique (Notifications s) \<Longrightarrow>
     notification_refs_unique (Notifications (deleteComments_then i c s))"
proof -
  have u: "apply_update update_notification [Unset ''reply''] = (\<lambda>n. n\<lparr>n_reply := None\<rparr>)"
    by (rule ext) (simp add: apply_update_def)
  show "notification_refs_unique (Notifications s) \<Longrightarrow>
     notification_refs_unique (Notifications (deleteComments_then i c s))"
    by (simp add: Notifications_deleteComments_then u refs_unique_unset_reply
        refs_unique_findOneAndDelete)
qed

lemma refs_unique_deleteComments:
  "notification_refs_unique (Notifications s) \<Longrightarrow>
     notification_refs_unique (Notifications (deleteComments i s))"
  "notification_refs_unique (Notifications s) \<Longrightarrow>
     notification_refs_unique (Notifications (deleteComments_children is s))"
proof (induction i s and "is" s rule: deleteComments_deleteComments_children.induct)
  case (1 i s)
  show ?case
  proof (cases "find (\<lambda>c. c_id c = i) (Comments s)")
    case None
    then show ?thesis using 1(2) by (simp add: deleteComments.simps)
  next
    case (Some c)
    have "notification_refs_unique (Notifications (deleteComments_then i c
            (s\<lparr>Comments := findOneAndDelete (\<lambda>c. c_id c = i) (Comments s)\<rparr>)))"
      using 1(2) by (simp add: refs_unique_deleteComments_then)
    then show ?thesis using 1(1)[OF Some] Some by (simp add: deleteComments.simps)
  qed
next
  case (2 s)
  then show ?case by simp
next
  case (3 replies rest s)
  then show ?case by simp
qed

lemma refs_unique_like_blog:
  "notification_refs_unique (Notifications s) \<Longrightarrow>
     notification_refs_unique (Notifications (snd (like_blog user_id i v nid now s)))"
proof -
  have app: "notification_refs_unique ns \<Longrightarrow> n_comment n = None \<Longrightarrow> n_reply n = None \<Longrightarrow>
               notification_refs_unique (ns @ [n])" for ns n
    by (simp add: notification_refs_unique_def)
  show "notification_refs_unique (Notifications s) \<Longrightarrow>
     notification_refs_unique (Notifications (snd (like_blog user_id i v nid now s)))"
    by (auto simp: like_blog_def Let_def save_def refs_unique_findOneAndDelete app
        split: option.splits)
qed

lemma refs_unique_delete_blog:
  "notification_refs_unique (Notifications s) \<Longrightarrow>
     notification_refs_unique (Notifications (snd (delete_blog user_id isAdmin slg s)))"
  by (auto simp: delete_blog_def Let_def deleteMany_def refs_unique_filter split: option.splits)

lemma refs_unique_create_blog:
  "Notifications (snd (create_blog toLowerCase authorId isAdmin req nanoid new_id now s)) =
     Notifications s"
  by (auto simp: create_blog_def Let_def split: option.splits)

lemma refs_unique_set_reply:
  assumes "notification_refs_unique ns" and "unused_comment_id c ns"
    and "n_comment new = Some c" and "n_reply new = None"
  shows "notification_refs_unique (findOneAndUpdate Q (\<lambda>n. n\<lparr>n_reply := Some c\<rparr>) ns @ [new])"
proof -
  let ?f = "\<lambda>n. n\<lparr>n_reply := Some c\<rparr>"
  have a: "length (filter (\<lambda>n. n_comment n = Some x) (findOneAndUpdate Q ?f xs)) =
           length (filter (\<lambda>n. n_comment n = Some x) xs)" for x and xs :: "notification_doc list"
    by (induction xs) auto
  have b1: "filter (\<lambda>n. n_reply n = Some c) xs = [] \<Longrightarrow>
            length (filter (\<lambda>n. n_reply n = Some c) (findOneAndUpdate Q ?f xs)) \<le> 1"
    for xs :: "notification_doc list"
    by (induction xs) (auto split: if_splits)
  have b2: "x \<noteq> c \<Longrightarrow> length (filter (\<lambda>n. n_reply n = Some x) (findOneAndUpdate Q ?f xs)) \<le>
            length (filter (\<lambda>n. n_reply n = Some x) xs)" for x and xs :: "notification_doc list"
    by (induction xs) auto
  have c1: "filter (\<lambda>n. n_comment n = Some c) xs = [] \<Longrightarrow>
            filter (\<lambda>n. n_comment n = Some c \<and> n_reply n = Some c) (findOneAndUpdate Q ?f xs) = []"
    for xs :: "notification_doc list"
    by (induction xs) (auto split: if_splits simp: filter_empty_conv)
  have c2: "x \<noteq> c \<Longrightarrow> filter (\<lambda>n. n_comment n = Some x \<and> n_reply n = Some x) xs = [] \<Longrightarrow>
            filter (\<lambda>n. n_comment n = Some x \<and> n_reply n = Some x) (findOneAndUpdate Q ?f xs) = []"
    for x and xs :: "notification_doc list"
    by (induction xs) (auto split: if_splits)
  have fresh1: "filter (\<lambda>n. n_comment n = Some c) ns = []"
    and fresh2: "filter (\<lambda>n. n_reply n = Some c) ns = []"
    using assms(2) by (simp_all add: unused_comment_id_def)
  show ?thesis
    unfolding notification_refs_unique_def
  proof (intro allI conjI)
    fix x
    show "length (filter (\<lambda>n. n_comment n = Some x)
            (findOneAndUpdate Q ?f ns @ [new])) \<le> 1"
    proof (cases "x = c")
      case True
      then show ?thesis using a[of c ns] fresh1 assms(3) by simp
    next
      case False
      then show ?thesis using a[of x ns] assms(1,3) by (simp add: notification_refs_unique_def)
    qed
    show "length (filter (\<lambda>n. n_reply n = Some x)
            (findOneAndUpdate Q ?f ns @ [new])) \<le> 1"
    proof (cases "x = c")
      case True
      then show ?thesis using b1[OF fresh2] assms(4) by simp
    next
      case False
      have "length (filter (\<lambda>n. n_reply n = Some x) ns) \<le> 1"
        using assms(1) by (simp add: notification_refs_unique_def)
      then show ?thesis using b2[OF False, of ns] assms(4) by simp
    qed
    show "filter (\<lambda>n. n_comment n = Some x \<and> n_reply n = Some x)
            (findOneAndUpdate Q ?f ns @ [new]) = []"
    proof (cases "x = c")
      case True
      then show ?thesis using c1[OF fresh1] assms(4) by simp
    next
      case False
      have "filter (\<lambda>n. n_comment n = Some x \<and> n_reply n = Some x) ns = []"
        using assms(1) by (simp add: notification_refs_unique_def)
      then show ?thesis using c2[OF False, of ns] assms(4) by simp
    qed
  qed
qed

lemma refs_unique_append_new:
  assumes "notification_refs_unique ns" and "unused_comment_id c ns"
    and "n_comment new = Some c" and "n_reply new = None"
  shows "notification_refs_unique (ns @ [new])"
proof -
  have "filter (\<lambda>n. n_comment n = Some c) ns = []"
    using assms(2) by (simp add: unused_comment_id_def)
  then show ?thesis
    using assms(1,3,4) by (auto simp: notification_refs_unique_def)
qed

lemma refs_unique_add_comment:
  assumes "notification_refs_unique (Notifications s)"
    and "unused_comment_id cid (Notifications s)"
  shows "notification_refs_unique (Notifications (snd (add_comment user_id req cid nid now s)))"
proof -
  have u: "apply_update update_notification [SetId ''reply'' cid] = (\<lambda>n. n\<lparr>n_reply := Some cid\<rparr>)"
    by (rule ext) (simp add: apply_update_def)
  show ?thesis
    using assms
    by (auto simp: add_comment_def Let_def save_def u
        refs_unique_set_reply[where c = cid] refs_unique_append_new[where c = cid]
        split: option.splits)
qed

lemma refs_unique_hypotheses:
  "notification_refs_unique ns \<Longrightarrow>
     length (filter (\<lambda>n. n_comment n = Some c) ns) \<le> 1 \<and>
     length (filter (\<lambda>n. n_reply n = Some c) ns) \<le> 1 \<and>
     filter (\<lambda>n. n_comment n = Some c \<and> n_reply n = Some c) ns = []"
  by (simp add: notification_refs_unique_def)

subsection \<open>The notifications after the whole tree is deleted\<close>

text \<open>
  Deleting a comment deletes its replies in turn, each with its own notifications. In the end
  the notification of every deleted comment is gone, and a notification that named a deleted
  comment as \<^verbatim>\<open>reply\<close> has lost that field, unless it was itself the notification of a
  deleted comment and went with it.
\<close>

lemma purge_Nil: "purge [] ns = ns"
  by (simp add: purge_def)

lemma purge_append: "purge D2 (purge D1 ns) = purge (D1 @ D2) ns"
  by (induction ns) (auto simp: purge_def)

lemma purge_single:
  "notification_refs_unique (Notifications s) \<Longrightarrow>
     Notifications (deleteComments_then c cm s) = purge [c] (Notifications s)"
  using Notifications_deleteComments_then_unique[of c s cm] refs_unique_hypotheses[of "Notifications s" c]
  by (simp add: purge_def)

lemma deleteComments_children_notifications:
  assumes each: "\<And>t s. t \<in> set ts \<Longrightarrow> comment_tree b (Comments s) t \<Longrightarrow> distinct (ids t) \<Longrightarrow>
                   notification_refs_unique (Notifications s) \<Longrightarrow>
                   Notifications (deleteComments (root t) s) = purge (ids t) (Notifications s)"
  shows "list_all (comment_tree b (Comments s)) ts \<Longrightarrow> distinct (concat (map ids ts)) \<Longrightarrow>
         notification_refs_unique (Notifications s) \<Longrightarrow>
           Notifications (deleteComments_children (map root ts) s) =
             purge (concat (map ids ts)) (Notifications s)"
  using each
proof (induction ts arbitrary: s)
  case Nil
  then show ?case by (simp add: purge_Nil)
next
  case (Cons t rest)
  let ?s1 = "deleteComments (root t) s"
  have t_in: "comment_tree b (Comments s) t"
    and rest_in: "list_all (comment_tree b (Comments s)) rest"
    using Cons.prems(1) by simp_all
  have dt: "distinct (ids t)" and dr: "distinct (concat (map ids rest))"
    and disj: "set (ids t) \<inter> set (concat (map ids rest)) = {}"
    using Cons.prems(2) by simp_all
  have n1: "Notifications ?s1 = purge (ids t) (Notifications s)"
    using Cons.prems(4)[of t s] t_in dt Cons.prems(3) by simp
  have u1: "notification_refs_unique (Notifications ?s1)"
    using Cons.prems(3) by (rule refs_unique_deleteComments(1))
  have frame: "deletes_trees b [t] s ?s1"
    using t_in dt by (rule deleteComments_tree)
  have "list_all (comment_tree b (Comments ?s1)) rest"
    unfolding list_all_iff
  proof
    fix t' assume t': "t' \<in> set rest"
    then have "comment_tree b (Comments s) t'"
      using rest_in by (simp add: list_all_iff)
    moreover have "set (ids t') \<inter> set (concat (map ids [t])) = {}"
      using disj t' by auto
    ultimately show "comment_tree b (Comments ?s1) t'"
      using frame by (simp add: deletes_trees_def)
  qed
  then have "Notifications (deleteComments_children (map root rest) ?s1) =
               purge (concat (map ids rest)) (Notifications ?s1)"
    using Cons.IH[of ?s1] dr u1 Cons.prems(4) by simp
  then show ?case
    by (simp add: n1 purge_append)
qed

lemma deleteComments_tree_notifications:
  "comment_tree b (Comments s) t \<Longrightarrow> distinct (ids t) \<Longrightarrow>
   notification_refs_unique (Notifications s) \<Longrightarrow>
     Notifications (deleteComments (root t) s) = purge (ids t) (Notifications s)"
proof (induction t arbitrary: s)
  case (Node i ts)
  from Node.prems(1) obtain c where
    c: "find (\<lambda>c. c_id c = i) (Comments s) = Some c" and
    ch: "children c = map root ts" and
    sub: "list_all (comment_tree b (Comments s)) ts"
    by (auto split: option.splits)
  let ?d = "s\<lparr>Comments := findOneAndDelete (\<lambda>c. c_id c = i) (Comments s)\<rparr>"
  let ?s0 = "deleteComments_then i c ?d"
  have ni: "i \<notin> set (concat (map ids ts))" and dts: "distinct (concat (map ids ts))"
    using Node.prems(2) by simp_all
  have "list_all (comment_tree b (Comments ?s0)) ts"
    unfolding list_all_iff
  proof
    fix t' assume t': "t' \<in> set ts"
    then have "comment_tree b (Comments s) t'" and "i \<notin> set (ids t')"
      using sub ni by (auto simp: list_all_iff)
    then show "comment_tree b (Comments ?s0) t'"
      by (simp add: comment_tree_deleteComments_then comment_tree_delete)
  qed
  moreover have n0: "Notifications ?s0 = purge [i] (Notifications s)"
    using purge_single[of ?d i c] Node.prems(3) by simp
  moreover have "notification_refs_unique (Notifications ?s0)"
    using refs_unique_deleteComments_then[of ?d i c] Node.prems(3) by simp
  ultimately have "Notifications (deleteComments_children (map root ts) ?s0) =
                     purge (concat (map ids ts)) (Notifications ?s0)"
    using deleteComments_children_notifications[of ts b ?s0] Node.IH dts by blast
  moreover have "deleteComments i s = deleteComments_children (map root ts) ?s0"
    using c ch by (simp add: deleteComments.simps)
  ultimately show ?case
    using purge_append[of "concat (map ids ts)" "[i]" "Notifications s"] by (simp add: n0)
qed

section \<open>Adding a comment: the blog's counters and the parent's children\<close>

lemma find_append_Some: "find P xs = Some x \<Longrightarrow> find P (xs @ ys) = Some x"
  by (induction xs) (auto split: if_splits)

lemma find_append_None: "find P xs = None \<Longrightarrow> find P (xs @ ys) = find P ys"
  by (induction xs) (auto split: if_splits)

lemma find_n_id_findOneAndUpdate:
  "(\<And>c. n_id (f c) = n_id c) \<Longrightarrow>
   find (\<lambda>c. n_id c = j) (findOneAndUpdate (\<lambda>c. n_id c = p) f cs) =
     (if j = p then map_option f (find (\<lambda>c. n_id c = j) cs) else find (\<lambda>c. n_id c = j) cs)"
  by (induction cs) auto

text \<open>The blog after the update that add-comment issues.\<close>

lemma Blogs_add_comment:
  "r_comment req = Some text \<Longrightarrow> text \<noteq> [] \<Longrightarrow>
   Blogs (snd (add_comment user_id req cid nid now s)) =
     findOneAndUpdate (\<lambda>b. b_id b = r_blog req)
       (\<lambda>b. b\<lparr>comments := comments b @ [cid],
              activity := (activity b)
                \<lparr>total_comments := total_comments (activity b) + 1,
                 total_parent_comments := total_parent_comments (activity b) +
                    (if replying_to req = None then 1 else 0)\<rparr>\<rparr>)
       (Blogs s)"
  by (auto simp: add_comment_def Let_def apply_update_def save_def split: option.splits
      intro!: arg_cong2[where f="\<lambda>f xs. findOneAndUpdate _ f xs"])


lemma Comments_add_comment:
  "r_comment req = Some text \<Longrightarrow> text \<noteq> [] \<Longrightarrow>
   Comments (snd (add_comment user_id req cid nid now s)) =
     (let new = \<lparr>c_id = cid, c_blog_id = r_blog req, c_blog_author = r_blog_author req,
                 c_comment = text, commented_by = user_id, parent = replying_to req,
                 isReply = (replying_to req \<noteq> None), children = [], commentedAt = now\<rparr>
      in case replying_to req of
           None \<Rightarrow> Comments s @ [new]
         | Some p \<Rightarrow> findOneAndUpdate (\<lambda>c. c_id c = p) (\<lambda>c. c\<lparr>children := children c @ [cid]\<rparr>)
                       (Comments s @ [new]))"
proof -
  have none: "find P xs = None \<Longrightarrow> findOneAndUpdate P f xs = xs" for P f and xs :: "comment_doc list"
    by (induction xs) (auto split: if_splits)
  assume "r_comment req = Some text" "text \<noteq> []"
  then show ?thesis
    by (auto simp: add_comment_def Let_def apply_update_def save_def none split: option.splits
        intro!: arg_cong2[where f="\<lambda>f xs. findOneAndUpdate _ f xs"])
qed

lemmas add_comment_eval = add_comment_def Let_def apply_update_def save_def

text \<open>
  Claim C4: every \<^verbatim>\<open>add-comment\<close> with a text that is not empty pushes the new comment's id
  onto the blog's \<^verbatim>\<open>comments\<close>, adds 1 to \<^verbatim>\<open>activity.total_comments\<close>, adds 1 to
  \<^verbatim>\<open>activity.total_parent_comments\<close> when no parent is given and 0 when one is, and pushes
  the id onto the \<^verbatim>\<open>children\<close> of the parent when one is given. The blog and the parent are
  documents of the store; nothing else of the blog changes.
\<close>

theorem add_comment_counts:
  assumes "r_comment req = Some text" and "text \<noteq> []"
    and "find (\<lambda>b. b_id b = r_blog req) (Blogs s) = Some blog"
  shows "find (\<lambda>b. b_id b = r_blog req) (Blogs (snd (add_comment user_id req cid nid now s))) =
           Some (blog\<lparr>comments := comments blog @ [cid],
                      activity := (activity blog)
                        \<lparr>total_comments := total_comments (activity blog) + 1,
                         total_parent_comments := total_parent_comments (activity blog) +
                           (if replying_to req = None then 1 else 0)\<rparr>\<rparr>) \<and>
         (\<forall>p pc. replying_to req = Some p \<longrightarrow>
            find (\<lambda>c. c_id c = p) (Comments s) = Some pc \<longrightarrow>
            find (\<lambda>c. c_id c = p) (Comments (snd (add_comment user_id req cid nid now s))) =
              Some (pc\<lparr>children := children pc @ [cid]\<rparr>))"
proof (intro conjI allI impI)
  show "find (\<lambda>b. b_id b = r_blog req) (Blogs (snd (add_comment user_id req cid nid now s))) =
           Some (blog\<lparr>comments := comments blog @ [cid],
                      activity := (activity blog)
                        \<lparr>total_comments := total_comments (activity blog) + 1,
                         total_parent_comments := total_parent_comments (activity blog) +
                           (if replying_to req = None then 1 else 0)\<rparr>\<rparr>)"
    using assms(3) by (simp add: Blogs_add_comment[OF assms(1,2)] find_b_id_findOneAndUpdate)
next
  fix p pc
  assume p: "replying_to req = Some p" and pc: "find (\<lambda>c. c_id c = p) (Comments s) = Some pc"
  show "find (\<lambda>c. c_id c = p) (Comments (snd (add_comment user_id req cid nid now s))) =
          Some (pc\<lparr>children := children pc @ [cid]\<rparr>)"
    using p find_append_Some[OF pc]
    by (simp add: Comments_add_comment[OF assms(1,2)] find_id_findOneAndUpdate)
qed

theorem add_comment_counts_witness:
  "r_comment example_reply = Some (ascii ''thanks'') \<and>
   map comments (Blogs example_store) = [[100, 101, 102, 103]] \<and>
   map comments (Blogs (snd (add_comment 1 example_reply 104 204 50 example_store))) =
     [[100, 101, 102, 103, 104]] \<and>
   map activity (Blogs (snd (add_comment 1 example_reply 104 204 50 example_store))) =
     [\<lparr>total_likes = 0, total_reads = 7, total_comments = 5, total_parent_comments = 2\<rparr>] \<and>
   map children (Comments (snd (add_comment 1 example_reply 104 204 50 example_store))) =
     [[101], [102], [], [104], []] \<and>
   map (\<lambda>b. total_parent_comments (activity b))
     (Blogs (snd (add_comment 2 (example_reply\<lparr>replying_to := None\<rparr>) 104 204 50 example_store))) = [3]"
proof -
  have h1: "r_comment example_reply = Some (ascii ''thanks'')"
    by (simp add: example_reply_def)
  have h2: "ascii ''thanks'' \<noteq> []"
    by (simp add: ascii_def)
  have h3: "find (\<lambda>b. b_id b = r_blog example_reply) (Blogs example_store) =
              Some (hd (Blogs example_store))"
    by (simp add: example_reply_def example_defs)
  have run: "map comments (Blogs example_store) = [[100, 101, 102, 103]] \<and>
   map comments (Blogs (snd (add_comment 1 example_reply 104 204 50 example_store))) =
     [[100, 101, 102, 103, 104]] \<and>
   map activity (Blogs (snd (add_comment 1 example_reply 104 204 50 example_store))) =
     [\<lparr>total_likes = 0, total_reads = 7, total_comments = 5, total_parent_comments = 2\<rparr>] \<and>
   map children (Comments (snd (add_comment 1 example_reply 104 204 50 example_store))) =
     [[101], [102], [], [104], []] \<and>
   map (\<lambda>b. total_parent_comments (activity b))
     (Blogs (snd (add_comment 2 (example_reply\<lparr>replying_to := None\<rparr>) 104 204 50 example_store))) = [3]"
    by (simp add: add_comment_eval example_reply_def example_defs)
  show ?thesis
    using add_comment_counts[OF h1 h2 h3, of 1 104 204 50] h1 run by blast
qed

section \<open>The notification of a reply\<close>

lemma Notifications_add_comment_reply:
  assumes "r_comment req = Some text" and "text \<noteq> []"
    and "replying_to req = Some p"
    and "find (\<lambda>c. c_id c = p) (Comments s) = Some pc"
  shows "Notifications (snd (add_comment user_id req cid nid now s)) =
     (case notification_id req of
        None \<Rightarrow> Notifications s
      | Some n \<Rightarrow> findOneAndUpdate (\<lambda>d. n_id d = n) (\<lambda>d. d\<lparr>n_reply := Some cid\<rparr>) (Notifications s))
     @ [\<lparr>n_id = nid, n_type = Reply, n_blog = r_blog req, notification_for = commented_by pc,
         n_user = user_id, n_comment = Some cid, replied_on_comment = Some p, n_reply = None,
         seen = False, createdAt = now\<rparr>]"
  using assms find_append_Some[OF assms(4)]
  by (auto simp: add_comment_def Let_def apply_update_def save_def split: option.splits
      intro!: arg_cong2[where f="\<lambda>f xs. findOneAndUpdate _ f xs"])

text \<open>
  Claim C8: for a reply, the notification that \<^verbatim>\<open>add-comment\<close> creates has type
  \<^verbatim>\<open>reply\<close>, goes to the author of the parent comment (\<^verbatim>\<open>commented_by\<close> of the parent, not
  the blog's author), and has the parent's id as \<^verbatim>\<open>replied_on_comment\<close>; when the request
  names a notification, that notification's \<^verbatim>\<open>reply\<close> becomes the new comment's id. The new
  notification is the one appended to the collection.
\<close>

theorem add_comment_reply_notification:
  assumes "r_comment req = Some text" and "text \<noteq> []"
    and "replying_to req = Some p"
    and "find (\<lambda>c. c_id c = p) (Comments s) = Some pc"
  shows "last (Notifications (snd (add_comment user_id req cid nid now s))) =
           \<lparr>n_id = nid, n_type = Reply, n_blog = r_blog req, notification_for = commented_by pc,
            n_user = user_id, n_comment = Some cid, replied_on_comment = Some p, n_reply = None,
            seen = False, createdAt = now\<rparr> \<and>
         length (Notifications (snd (add_comment user_id req cid nid now s))) =
           Suc (length (Notifications s)) \<and>
         (\<forall>n d. notification_id req = Some n \<longrightarrow>
            find (\<lambda>d. n_id d = n) (Notifications s) = Some d \<longrightarrow>
            find (\<lambda>d. n_id d = n) (Notifications (snd (add_comment user_id req cid nid now s))) =
              Some (d\<lparr>n_reply := Some cid\<rparr>))"
proof -
  note eq = Notifications_add_comment_reply[OF assms, of user_id cid nid now]
  have "\<forall>n d. notification_id req = Some n \<longrightarrow>
            find (\<lambda>d. n_id d = n) (Notifications s) = Some d \<longrightarrow>
            find (\<lambda>d. n_id d = n) (Notifications (snd (add_comment user_id req cid nid now s))) =
              Some (d\<lparr>n_reply := Some cid\<rparr>)"
  proof (intro allI impI)
    fix n d
    assume n: "notification_id req = Some n" and d: "find (\<lambda>d. n_id d = n) (Notifications s) = Some d"
    have "find (\<lambda>d. n_id d = n)
            (findOneAndUpdate (\<lambda>d. n_id d = n) (\<lambda>d. d\<lparr>n_reply := Some cid\<rparr>) (Notifications s)) =
          Some (d\<lparr>n_reply := Some cid\<rparr>)"
      using d by (simp add: find_n_id_findOneAndUpdate)
    then show "find (\<lambda>d. n_id d = n) (Notifications (snd (add_comment user_id req cid nid now s))) =
              Some (d\<lparr>n_reply := Some cid\<rparr>)"
      unfolding eq using n by (simp add: find_append_Some)
  qed
  moreover have "last (Notifications (snd (add_comment user_id req cid nid now s))) =
           \<lparr>n_id = nid, n_type = Reply, n_blog = r_blog req, notification_for = commented_by pc,
            n_user = user_id, n_comment = Some cid, replied_on_comment = Some p, n_reply = None,
            seen = False, createdAt = now\<rparr>"
    unfolding eq by simp
  moreover have "length (Notifications (snd (add_comment user_id req cid nid now s))) =
           Suc (length (Notifications s))"
    unfolding eq by (simp split: option.splits)
  ultimately show ?thesis by blast
qed

theorem add_comment_reply_notification_witness:
  "r_comment example_reply = Some (ascii ''thanks'') \<and>
   replying_to example_reply = Some 103 \<and>
   find (\<lambda>c. c_id c = 103) (Comments example_store) = Some (example_comment 103 None [] 2) \<and>
   last (Notifications (snd (add_comment 1 example_reply 104 204 50 example_store))) =
     \<lparr>n_id = 204, n_type = Reply, n_blog = 10, notification_for = 2, n_user = 1,
      n_comment = Some 104, replied_on_comment = Some 103, n_reply = None, seen = False,
      createdAt = 50\<rparr> \<and>
   map n_reply (Notifications (snd (add_comment 1 example_reply 104 204 50 example_store))) =
     [Some 101, Some 102, None, Some 104, None]"
proof -
  have h1: "r_comment example_reply = Some (ascii ''thanks'')"
    and h3: "replying_to example_reply = Some 103"
    by (simp_all add: example_reply_def)
  have h2: "ascii ''thanks'' \<noteq> []"
    by (simp add: ascii_def)
  have h4: "find (\<lambda>c. c_id c = 103) (Comments example_store) = Some (example_comment 103 None [] 2)"
    by (simp add: example_defs)
  have run: "last (Notifications (snd (add_comment 1 example_reply 104 204 50 example_store))) =
     \<lparr>n_id = 204, n_type = Reply, n_blog = 10, notification_for = 2, n_user = 1,
      n_comment = Some 104, replied_on_comment = Some 103, n_reply = None, seen = False,
      createdAt = 50\<rparr> \<and>
   map n_reply (Notifications (snd (add_comment 1 example_reply 104 204 50 example_store))) =
     [Some 101, Some 102, None, Some 104, None]"
    by (simp add: add_comment_eval example_reply_def example_defs)
  show ?thesis
    using add_comment_reply_notification[OF h1 h2 h3 h4, of 1 104 204 50] h1 h3 h4 run by blast
qed

section \<open>A reply to a comment that does not exist\<close>

lemma findOneAndUpdate_no_match:
  "find P xs = None \<Longrightarrow> findOneAndUpdate P f xs = xs"
  by (induction xs) (auto split: if_splits)

lemma deleteComments_absent:
  "find (\<lambda>c. c_id c = i) (Comments s) = None \<Longrightarrow> deleteComments i s = s"
  by (simp add: deleteComments.simps)

text \<open>
  What \<^verbatim>\<open>add-comment\<close> does with a parent id that matches no comment: it has saved the
  comment and updated the blog when the parent's update finds nothing; the callback then
  reads \<^verbatim>\<open>commented_by\<close> of null and throws, nothing catches it, and the handler ends
  without a response and without a notification.
\<close>

lemma add_comment_missing_parent_effect:
  assumes "r_comment req = Some text" and "text \<noteq> []"
    and "replying_to req = Some p"
    and "find (\<lambda>c. c_id c = p) (Comments s) = None"
    and "p \<noteq> cid"
  shows "fst (add_comment user_id req cid nid now s) = NoResponse \<and>
         Comments (snd (add_comment user_id req cid nid now s)) =
           Comments s @ [\<lparr>c_id = cid, c_blog_id = r_blog req, c_blog_author = r_blog_author req,
                          c_comment = text, commented_by = user_id, parent = Some p,
                          isReply = True, children = [], commentedAt = now\<rparr>] \<and>
         Notifications (snd (add_comment user_id req cid nid now s)) = Notifications s \<and>
         Users (snd (add_comment user_id req cid nid now s)) = Users s \<and>
         (\<forall>blog. find (\<lambda>b. b_id b = r_blog req) (Blogs s) = Some blog \<longrightarrow>
            find (\<lambda>b. b_id b = r_blog req) (Blogs (snd (add_comment user_id req cid nid now s))) =
              Some (blog\<lparr>comments := comments blog @ [cid],
                         activity := (activity blog)
                           \<lparr>total_comments := total_comments (activity blog) + 1,
                            total_parent_comments := total_parent_comments (activity blog)\<rparr>\<rparr>))"
proof -
  have nf: "find (\<lambda>c. c_id c = p) (Comments s @ [x]) = None" if "c_id x = cid" for x
    using assms(4,5) that by (simp add: find_append_None)
  have "Comments (snd (add_comment user_id req cid nid now s)) =
           Comments s @ [\<lparr>c_id = cid, c_blog_id = r_blog req, c_blog_author = r_blog_author req,
                          c_comment = text, commented_by = user_id, parent = Some p,
                          isReply = True, children = [], commentedAt = now\<rparr>]"
    using assms(3) nf
    by (simp add: Comments_add_comment[OF assms(1,2)] findOneAndUpdate_no_match)
  moreover have "Notifications (snd (add_comment user_id req cid nid now s)) = Notifications s"
    and "Users (snd (add_comment user_id req cid nid now s)) = Users s"
    and "fst (add_comment user_id req cid nid now s) = NoResponse"
    using assms(1,2,3) nf
    by (simp_all add: add_comment_def Let_def save_def split: option.splits)
  moreover have "find (\<lambda>b. b_id b = r_blog req) (Blogs (snd (add_comment user_id req cid nid now s))) =
              Some (blog\<lparr>comments := comments blog @ [cid],
                         activity := (activity blog)
                           \<lparr>total_comments := total_comments (activity blog) + 1,
                            total_parent_comments := total_parent_comments (activity blog)\<rparr>\<rparr>)"
    if "find (\<lambda>b. b_id b = r_blog req) (Blogs s) = Some blog" for blog
    using that assms(3) by (simp add: Blogs_add_comment[OF assms(1,2)] find_b_id_findOneAndUpdate)
  ultimately show ?thesis
    by blast
qed

text \<open>
  Claim C7: an operation on a comment that does not exist, and \<^verbatim>\<open>add-comment\<close> with a
  parent id that matches no comment in particular, is reported as a NotFoundError and
  changes no document.

  \<^verbatim>\<open>add-comment\<close> does neither. On the example store no comment has the id 999; a reply to
  it gets no response at all, not an error, and yet the store is another one afterwards: it
  holds the reply as a fifth comment, and the blog counts five comments.
\<close>

theorem add_comment_missing_parent_unreported:
  "find (\<lambda>c. c_id c = 999) (Comments example_store) = None \<and>
   fst (add_comment 2 example_orphan_reply 104 204 50 example_store) = NoResponse \<and>
   snd (add_comment 2 example_orphan_reply 104 204 50 example_store) \<noteq> example_store \<and>
   map c_id (Comments example_store) = [100, 101, 102, 103] \<and>
   map c_id (Comments (snd (add_comment 2 example_orphan_reply 104 204 50 example_store))) =
     [100, 101, 102, 103, 104] \<and>
   blog_total_comments 10 example_store = Some 4 \<and>
   blog_total_comments 10 (snd (add_comment 2 example_orphan_reply 104 204 50 example_store)) = Some 5"
proof -
  have a: "find (\<lambda>c. c_id c = 999) (Comments example_store) = None \<and>
   fst (add_comment 2 example_orphan_reply 104 204 50 example_store) = NoResponse \<and>
   map c_id (Comments example_store) = [100, 101, 102, 103] \<and>
   map c_id (Comments (snd (add_comment 2 example_orphan_reply 104 204 50 example_store))) =
     [100, 101, 102, 103, 104] \<and>
   blog_total_comments 10 example_store = Some 4 \<and>
   blog_total_comments 10 (snd (add_comment 2 example_orphan_reply 104 204 50 example_store)) = Some 5"
    by (simp add: add_comment_eval example_orphan_reply_def example_defs blog_total_comments_def)
  then have "blog_total_comments 10 (snd (add_comment 2 example_orphan_reply 104 204 50 example_store)) \<noteq>
             blog_total_comments 10 example_store"
    by simp
  then have "snd (add_comment 2 example_orphan_reply 104 204 50 example_store) \<noteq> example_store"
    by auto
  with a show ?thesis by blast
qed

section \<open>Liking and then unliking\<close>

lemma findOneAndDelete_append_last:
  "filter P xs = [] \<Longrightarrow> P x \<Longrightarrow> findOneAndDelete P (xs @ [x]) = xs"
  by (induction xs) (auto split: if_splits)

lemma inc_total_likes:
  "apply_update update_blog [Inc ''activity.total_likes'' k] =
     (\<lambda>b. b\<lparr>activity := (activity b)\<lparr>total_likes := total_likes (activity b) + k\<rparr>\<rparr>)"
  by (rule ext) (simp add: apply_update_def)

lemma like_blog_on:
  assumes "\<not> truthy v" and "find (\<lambda>b. b_id b = i) (Blogs s) = Some blog"
  shows "like_blog user_id i v nid now s =
     (Response 200 (LikedByUser True),
      s\<lparr>Blogs := findOneAndUpdate (\<lambda>b. b_id b = i)
                    (\<lambda>b. b\<lparr>activity := (activity b)\<lparr>total_likes := total_likes (activity b) + 1\<rparr>\<rparr>)
                    (Blogs s),
        Notifications := Notifications s @
          [\<lparr>n_id = nid, n_type = Like, n_blog = i, notification_for = author blog,
            n_user = user_id, n_comment = None, replied_on_comment = None, n_reply = None,
            seen = False, createdAt = now\<rparr>]\<rparr>)"
  using assms by (simp add: like_blog_def Let_def inc_total_likes save_def)

lemma like_blog_off:
  assumes "truthy v" and "greater_than_zero v"
  shows "like_blog user_id i v nid now s =
     (Response 200 (LikedByUser False),
      s\<lparr>Blogs := findOneAndUpdate (\<lambda>b. b_id b = i)
                    (\<lambda>b. b\<lparr>activity := (activity b)\<lparr>total_likes := total_likes (activity b) - 1\<rparr>\<rparr>)
                    (Blogs s),
        Notifications := findOneAndDelete (like_notification user_id i) (Notifications s)\<rparr>)"
  using assms by (simp add: like_blog_def Let_def inc_total_likes)

text \<open>
  Claim C5: for every user, every blog and every value of the blog's like counter, a like
  followed by an unlike brings \<^verbatim>\<open>activity.total_likes\<close> back to the value it had and
  leaves no notification of type \<^verbatim>\<open>like\<close> for that user and blog.

  The first request says that the user does not like the blog yet (\<^verbatim>\<open>isLikedByUser\<close> is
  falsy) and the user has indeed no like notification for it; the second says that the user
  likes it. The notifications are afterwards the ones of before.
\<close>

theorem like_blog_on_off:
  assumes "\<not> truthy off" and "truthy on" and "greater_than_zero on"
    and "find (\<lambda>b. b_id b = i) (Blogs s) = Some blog"
    and "filter (like_notification user_id i) (Notifications s) = []"
  shows "map_option (\<lambda>b. total_likes (activity b))
           (find (\<lambda>b. b_id b = i)
              (Blogs (snd (like_blog user_id i on nid' now'
                       (snd (like_blog user_id i off nid now s)))))) =
           Some (total_likes (activity blog)) \<and>
         filter (like_notification user_id i)
           (Notifications (snd (like_blog user_id i on nid' now'
                       (snd (like_blog user_id i off nid now s))))) = [] \<and>
         Notifications (snd (like_blog user_id i on nid' now'
                       (snd (like_blog user_id i off nid now s)))) = Notifications s \<and>
         fst (like_blog user_id i off nid now s) = Response 200 (LikedByUser True) \<and>
         fst (like_blog user_id i on nid' now' (snd (like_blog user_id i off nid now s))) =
           Response 200 (LikedByUser False)"
proof -
  let ?s1 = "snd (like_blog user_id i off nid now s)"
  let ?s2 = "snd (like_blog user_id i on nid' now' ?s1)"
  let ?like = "\<lparr>n_id = nid, n_type = Like, n_blog = i, notification_for = author blog,
            n_user = user_id, n_comment = None, replied_on_comment = None, n_reply = None,
            seen = False, createdAt = now\<rparr>"
  note on1 = like_blog_on[OF assms(1,4), of user_id nid now]
  note off2 = like_blog_off[OF assms(2,3), of user_id i nid' now' ?s1]
  have n1: "Notifications ?s1 = Notifications s @ [?like]"
    by (simp add: on1)
  have "like_notification user_id i ?like"
    by (simp add: like_notification_def)
  then have n2: "Notifications ?s2 = Notifications s"
    using assms(5) by (simp add: off2 n1 findOneAndDelete_append_last)
  have b1: "find (\<lambda>b. b_id b = i) (Blogs ?s1) =
              Some (blog\<lparr>activity := (activity blog)\<lparr>total_likes := total_likes (activity blog) + 1\<rparr>\<rparr>)"
    using assms(4) by (simp add: on1 find_b_id_findOneAndUpdate)
  have b2: "map_option (\<lambda>b. total_likes (activity b)) (find (\<lambda>b. b_id b = i) (Blogs ?s2)) =
              Some (total_likes (activity blog))"
    using b1 by (simp add: off2 find_b_id_findOneAndUpdate)
  have r1: "fst (like_blog user_id i off nid now s) = Response 200 (LikedByUser True)"
    by (simp add: on1)
  have r2: "fst (like_blog user_id i on nid' now' ?s1) = Response 200 (LikedByUser False)"
    by (simp add: off2)
  show ?thesis
    using b2 n2 assms(5) r1 r2 by simp
qed

theorem like_blog_on_off_witness:
  "find (\<lambda>b. b_id b = 10) (Blogs example_store) = Some (hd (Blogs example_store)) \<and>
   filter (like_notification 2 10) (Notifications example_store) = [] \<and>
   map (\<lambda>b. total_likes (activity b)) (Blogs example_store) = [0] \<and>
   map (\<lambda>b. total_likes (activity b))
     (Blogs (snd (like_blog 2 10 (JBool False) 204 50 example_store))) = [1] \<and>
   map (\<lambda>b. total_likes (activity b))
     (Blogs (snd (like_blog 2 10 (JBool True) 205 51
        (snd (like_blog 2 10 (JBool False) 204 50 example_store))))) = [0] \<and>
   filter (like_notification 2 10)
     (Notifications (snd (like_blog 2 10 (JBool True) 205 51
        (snd (like_blog 2 10 (JBool False) 204 50 example_store))))) = []"
proof -
  have h1: "\<not> truthy (JBool False)" and h2: "truthy (JBool True)"
    and h3: "greater_than_zero (JBool True)"
    by simp_all
  have h4: "find (\<lambda>b. b_id b = 10) (Blogs example_store) = Some (hd (Blogs example_store))"
    and h5: "filter (like_notification 2 10) (Notifications example_store) = []"
    by (simp_all add: example_defs like_notification_def)
  have run: "map (\<lambda>b. total_likes (activity b)) (Blogs example_store) = [0] \<and>
   map (\<lambda>b. total_likes (activity b))
     (Blogs (snd (like_blog 2 10 (JBool False) 204 50 example_store))) = [1] \<and>
   map (\<lambda>b. total_likes (activity b))
     (Blogs (snd (like_blog 2 10 (JBool True) 205 51
        (snd (like_blog 2 10 (JBool False) 204 50 example_store))))) = [0]"
    by (simp add: like_blog_def Let_def apply_update_def save_def example_defs like_notification_def)
  show ?thesis
    using like_blog_on_off[OF h1 h2 h3 h4 h5, of 205 51 204 50] h4 h5 run by blast
qed

section \<open>Publishing and saving as a draft\<close>

lemma draft_user_update:
  "apply_update update_user [Inc ''account_info.total_posts'' 0, Push ''blogs'' i] =
     (\<lambda>u. u\<lparr>blogs := blogs u @ [i]\<rparr>)"
  by (rule ext) (simp add: apply_update_def)

text \<open>
  Claim C6 says that \<^verbatim>\<open>create-blog\<close> without \<^verbatim>\<open>draft\<close> rejects a payload whose description
  is empty or longer than 200 characters, whose banner is empty, whose content has no block,
  or whose tags are none or more than 10, and accepts the same payload with \<^verbatim>\<open>draft\<close> true.

  A draft is not accepted whatever else the request holds: the title is checked before
  \<^verbatim>\<open>draft\<close> is looked at, and the caller must be an admin. The post without tags and
  without a title is rejected as a draft too, and the draft of a caller who is not an admin
  is rejected with the permissions error.
\<close>

theorem create_blog_draft_counterexample:
  "r_tags (example_post\<lparr>r_title := []\<rparr>) = [] \<and>
   fst (create_blog (\<lambda>t. t) 1 True (example_post\<lparr>r_title := [], r_draft := JBool True\<rparr>)
          (ascii ''xYz'') 11 60 example_store) =
     Response 403 (Error ''You must provide a title'') \<and>
   fst (create_blog (\<lambda>t. t) 2 False (example_post\<lparr>r_draft := JBool True\<rparr>)
          (ascii ''xYz'') 11 60 example_store) =
     Response 500 (Error ''You don't have permissions to create any blog post'')"
  by (simp add: create_blog_def example_post_def)

text \<open>
  Claim C6 as amended: for a caller who is an admin and a title that is not empty,
  \<^verbatim>\<open>create-blog\<close> without \<^verbatim>\<open>draft\<close> (absent or falsy) rejects with status 403, changing
  nothing, a payload whose description is empty or longer than 200 characters, whose banner
  is empty, whose content has no block, or whose tags are none or more than 10; the same
  payload with \<^verbatim>\<open>draft\<close> true is accepted with status 200. Without an \<^verbatim>\<open>id\<close> (absent or
  empty) it is then saved as a new draft under the slug made from its title, with its tags
  in lower case, and pushed onto the \<^verbatim>\<open>blogs\<close> of the caller, whose \<^verbatim>\<open>total_posts\<close> stays.
  With an \<^verbatim>\<open>id\<close> the first blog that has this slug is overwritten with the payload and
  marked as a draft, and no document is saved or changed when no blog has it.
\<close>

theorem create_blog_publish_or_draft:
  assumes "r_title req \<noteq> []"
    and "\<not> truthy (r_draft req)"
    and "r_desc req = [] \<or> 200 < length (r_desc req) \<or> r_banner req = [] \<or>
         r_content req = [] \<or> r_tags req = [] \<or> 10 < length (r_tags req)"
  shows "(\<exists>msg. create_blog toLowerCase authorId True req nanoid new_id now s =
                  (Response 403 (Error msg), s)) \<and>
         (r_id req = None \<or> r_id req = Some [] \<longrightarrow>
            create_blog toLowerCase authorId True (req\<lparr>r_draft := JBool True\<rparr>) nanoid new_id now s =
              (Response 200 (BlogId (slug (r_title req) nanoid)),
               s\<lparr>Blogs := Blogs s @
                    [\<lparr>b_id = new_id, blog_id = slug (r_title req) nanoid, title = r_title req,
                      banner = r_banner req, desc = r_desc req, content = r_content req,
                      tags = map toLowerCase (r_tags req), author = authorId,
                      activity = \<lparr>total_likes = 0, total_reads = 0, total_comments = 0,
                                  total_parent_comments = 0\<rparr>,
                      comments = [], draft = True, publishedAt = now\<rparr>],
                 Users := findOneAndUpdate (\<lambda>u. u_id u = authorId)
                            (\<lambda>u. u\<lparr>blogs := blogs u @ [new_id]\<rparr>) (Users s)\<rparr>)) \<and>
         (\<forall>i. r_id req = Some i \<longrightarrow> i \<noteq> [] \<longrightarrow>
            create_blog toLowerCase authorId True (req\<lparr>r_draft := JBool True\<rparr>) nanoid new_id now s =
              (Response 200 (BlogId i),
               s\<lparr>Blogs := findOneAndUpdate (\<lambda>b. blog_id b = i)
                    (\<lambda>b. b\<lparr>title := r_title req, desc := r_desc req, banner := r_banner req,
                          content := r_content req, tags := map toLowerCase (r_tags req),
                          draft := True\<rparr>)
                    (Blogs s)\<rparr>)) \<and>
         (\<forall>i. r_id req = Some i \<longrightarrow> i \<noteq> [] \<longrightarrow> find (\<lambda>b. blog_id b = i) (Blogs s) = None \<longrightarrow>
            create_blog toLowerCase authorId True (req\<lparr>r_draft := JBool True\<rparr>) nanoid new_id now s =
              (Response 200 (BlogId i), s))"
proof -
  let ?draft = "req\<lparr>r_draft := JBool True\<rparr>"
  have rejected: "\<exists>msg. create_blog toLowerCase authorId True req nanoid new_id now s =
                  (Response 403 (Error msg), s)"
    using assms by (auto simp: create_blog_def)
  have new: "create_blog toLowerCase authorId True ?draft nanoid new_id now s =
              (Response 200 (BlogId (slug (r_title req) nanoid)),
               s\<lparr>Blogs := Blogs s @
                    [\<lparr>b_id = new_id, blog_id = slug (r_title req) nanoid, title = r_title req,
                      banner = r_banner req, desc = r_desc req, content = r_content req,
                      tags = map toLowerCase (r_tags req), author = authorId,
                      activity = \<lparr>total_likes = 0, total_reads = 0, total_comments = 0,
                                  total_parent_comments = 0\<rparr>,
                      comments = [], draft = True, publishedAt = now\<rparr>],
                 Users := findOneAndUpdate (\<lambda>u. u_id u = authorId)
                            (\<lambda>u. u\<lparr>blogs := blogs u @ [new_id]\<rparr>) (Users s)\<rparr>)"
    if "r_id req = None \<or> r_id req = Some []"
    using assms(1) that by (auto simp: create_blog_def Let_def save_def draft_user_update)
  have existing: "create_blog toLowerCase authorId True ?draft nanoid new_id now s =
              (Response 200 (BlogId i),
               s\<lparr>Blogs := findOneAndUpdate (\<lambda>b. blog_id b = i)
                    (\<lambda>b. b\<lparr>title := r_title req, desc := r_desc req, banner := r_banner req,
                          content := r_content req, tags := map toLowerCase (r_tags req),
                          draft := True\<rparr>)
                    (Blogs s)\<rparr>)"
    if "r_id req = Some i" "i \<noteq> []" for i
    using assms(1) that by (simp add: create_blog_def Let_def)
  have unsaved: "create_blog toLowerCase authorId True ?draft nanoid new_id now s =
              (Response 200 (BlogId i), s)"
    if "r_id req = Some i" "i \<noteq> []" "find (\<lambda>b. blog_id b = i) (Blogs s) = None" for i
    using existing[OF that(1,2)] that(3) by (simp add: findOneAndUpdate_no_match)
  show ?thesis
    apply (intro conjI allI impI)
       apply (rule rejected)
      apply (rule new, assumption)
     apply (rule existing; assumption)
    apply (rule unsaved; assumption)
    done
qed

theorem create_blog_publish_or_draft_witness:
  "r_title example_post \<noteq> [] \<and> \<not> truthy (r_draft example_post) \<and> r_tags example_post = [] \<and>
   r_id example_post = None \<and>
   create_blog (\<lambda>t. t) 1 True example_post (ascii ''xYz'') 11 60 example_store =
     (Response 403 (Error ''Provide tags to publish it, max 10 tags''), example_store) \<and>
   fst (create_blog (\<lambda>t. t) 1 True (example_post\<lparr>r_draft := JBool True\<rparr>) (ascii ''xYz'') 11 60
          example_store) = Response 200 (BlogId (ascii ''A-TitlexYz'')) \<and>
   map draft (Blogs (snd (create_blog (\<lambda>t. t) 1 True (example_post\<lparr>r_draft := JBool True\<rparr>)
                            (ascii ''xYz'') 11 60 example_store))) = [False, True] \<and>
   map blogs (Users (snd (create_blog (\<lambda>t. t) 1 True (example_post\<lparr>r_draft := JBool True\<rparr>)
                            (ascii ''xYz'') 11 60 example_store))) = [[10, 11], [], []] \<and>
   create_blog (\<lambda>t. t) 1 True (example_post\<lparr>r_draft := JBool True, r_id := Some (ascii ''nope'')\<rparr>)
     (ascii ''xYz'') 11 60 example_store = (Response 200 (BlogId (ascii ''nope'')), example_store)"
proof -
  have h1: "r_title example_post \<noteq> []" and h2: "\<not> truthy (r_draft example_post)"
    and tags: "r_tags example_post = []" and noid: "r_id example_post = None"
    by (simp_all add: example_post_def ascii_def)
  have h3: "r_desc example_post = [] \<or> 200 < length (r_desc example_post) \<or>
            r_banner example_post = [] \<or> r_content example_post = [] \<or>
            r_tags example_post = [] \<or> 10 < length (r_tags example_post)"
    using tags by simp
  have run: "create_blog (\<lambda>t. t) 1 True example_post (ascii ''xYz'') 11 60 example_store =
     (Response 403 (Error ''Provide tags to publish it, max 10 tags''), example_store) \<and>
   fst (create_blog (\<lambda>t. t) 1 True (example_post\<lparr>r_draft := JBool True\<rparr>) (ascii ''xYz'') 11 60
          example_store) = Response 200 (BlogId (ascii ''A-TitlexYz'')) \<and>
   map draft (Blogs (snd (create_blog (\<lambda>t. t) 1 True (example_post\<lparr>r_draft := JBool True\<rparr>)
                            (ascii ''xYz'') 11 60 example_store))) = [False, True] \<and>
   map blogs (Users (snd (create_blog (\<lambda>t. t) 1 True (example_post\<lparr>r_draft := JBool True\<rparr>)
                            (ascii ''xYz'') 11 60 example_store))) = [[10, 11], [], []] \<and>
   create_blog (\<lambda>t. t) 1 True (example_post\<lparr>r_draft := JBool True, r_id := Some (ascii ''nope'')\<rparr>)
     (ascii ''xYz'') 11 60 example_store = (Response 200 (BlogId (ascii ''nope'')), example_store)"
    by (simp add: create_blog_def example_post_def Let_def save_def slug_def trim_def
        alphanumeric_def apply_update_def example_defs)
  show ?thesis
    using create_blog_publish_or_draft[OF h1 h2 h3, of "\<lambda>t. t" 1 "ascii ''xYz''" 11 60 example_store]
      h1 h2 tags noid run
    by blast
qed

section \<open>The offset of a page\<close>



section \<open>Deleting a blog and the users' lists of blogs\<close>

lemma map_blogs_findOneAndUpdate:
  "(\<And>u. blogs (f u) = blogs u) \<Longrightarrow> map blogs (findOneAndUpdate P f us) = map blogs us"
  by (induction us) auto

lemma find_u_id_findOneAndUpdate:
  "(\<And>c. u_id (f c) = u_id c) \<Longrightarrow>
   find (\<lambda>c. u_id c = j) (findOneAndUpdate (\<lambda>c. u_id c = p) f cs) =
     (if j = p then map_option f (find (\<lambda>c. u_id c = j) cs) else find (\<lambda>c. u_id c = j) cs)"
  by (induction cs) auto

text \<open>
  Claim C10: \<^verbatim>\<open>delete-blog\<close> leaves the \<^verbatim>\<open>blogs\<close> array of every user as it is: the
  deleted blog's id stays in its author's \<^verbatim>\<open>blogs\<close>, since the update pulls from the path
  \<^verbatim>\<open>blog\<close>; and the 1 taken from \<^verbatim>\<open>account_info.total_posts\<close> is taken from the caller,
  who need not be the author.
\<close>

theorem delete_blog_keeps_user_blogs:
  "map blogs (Users (snd (delete_blog user_id isAdmin slg s))) = map blogs (Users s) \<and>
   (\<forall>blog u. isAdmin \<longrightarrow> find (\<lambda>b. blog_id b = slg) (Blogs s) = Some blog \<longrightarrow>
      find (\<lambda>u. u_id u = user_id) (Users s) = Some u \<longrightarrow>
      find (\<lambda>u. u_id u = user_id) (Users (snd (delete_blog user_id isAdmin slg s))) =
        Some (u\<lparr>account_info := (account_info u)\<lparr>total_posts := total_posts (account_info u) - 1\<rparr>\<rparr>))"
  by (auto simp: delete_blog_def Let_def apply_update_def map_blogs_findOneAndUpdate
      find_u_id_findOneAndUpdate split: option.splits)

theorem delete_blog_keeps_user_blogs_witness:
  "find (\<lambda>b. blog_id b = ascii ''post'') (Blogs example_store) = Some (hd (Blogs example_store)) \<and>
   author (hd (Blogs example_store)) = 1 \<and>
   fst (delete_blog 3 True (ascii ''post'') example_store) = Response 200 Done \<and>
   map blogs (Users example_store) = [[10], [], []] \<and>
   map blogs (Users (snd (delete_blog 3 True (ascii ''post'') example_store))) = [[10], [], []] \<and>
   map (\<lambda>u. total_posts (account_info u)) (Users (snd (delete_blog 3 True (ascii ''post'') example_store))) =
     [1, 0, - 1]"
proof -
  have run: "find (\<lambda>b. blog_id b = ascii ''post'') (Blogs example_store) = Some (hd (Blogs example_store)) \<and>
   author (hd (Blogs example_store)) = 1 \<and>
   fst (delete_blog 3 True (ascii ''post'') example_store) = Response 200 Done \<and>
   map blogs (Users example_store) = [[10], [], []] \<and>
   map (\<lambda>u. total_posts (account_info u)) (Users (snd (delete_blog 3 True (ascii ''post'') example_store))) =
     [1, 0, - 1]"
    by (simp add: delete_blog_def Let_def apply_update_def deleteMany_def example_defs)
  show ?thesis
    using delete_blog_keeps_user_blogs[of 3 True "ascii ''post''" example_store] run by simp
qed

end
